theory Spec2Isabelle
  imports Complex_Main "HOL-Library.Word" "HOL-Library.Sublist"
begin

section \<open>JavaScript strings\<close>

text \<open>
  A JavaScript string is a sequence of 16-bit UTF-16 code units; \<open>length\<close>, \<open>slice\<close>,
  \<open>lastIndexOf\<close> and the regular expressions of the routes (none has the \<open>u\<close> flag) all
  count and match code units. \<open>js\<close> writes an ASCII literal as code units.
\<close>

type_synonym jschar = "16 word"
type_synonym jsstring = "jschar list"

definition js :: "string \<Rightarrow> jsstring" where
  "js s = map of_char s"

text \<open>
  The class \<open>\s\<close> of a regular expression, which is also the set of code units that
  \<open>String.prototype.trim\<close> strips (WhiteSpace and LineTerminator of ECMAScript):
  TAB, LF, VT, FF, CR, SP, NBSP, U+1680, U+2000..U+200A, U+2028, U+2029, U+202F, U+205F,
  U+3000 and U+FEFF.
\<close>

definition isWhiteSpace :: "jschar \<Rightarrow> bool" where
  "isWhiteSpace c =
     (c = 0x09 \<or> c = 0x0A \<or> c = 0x0B \<or> c = 0x0C \<or> c = 0x0D \<or> c = 0x20 \<or> c = 0xA0
      \<or> c = 0x1680 \<or> (0x2000 \<le> c \<and> c \<le> 0x200A) \<or> c = 0x2028 \<or> c = 0x2029
      \<or> c = 0x202F \<or> c = 0x205F \<or> c = 0x3000 \<or> c = 0xFEFF)"

text \<open>\<open>s.trim()\<close>: white space is stripped from both ends.\<close>

definition trim :: "jsstring \<Rightarrow> jsstring" where
  "trim s = rev (dropWhile isWhiteSpace (rev (dropWhile isWhiteSpace s)))"

text \<open>
  \<open>s.slice(start, end)\<close>: a negative index counts from the end of the string, both
  indices are clamped to the string, and the result is empty when the end is not after the
  start.
\<close>

definition slice :: "jsstring \<Rightarrow> int \<Rightarrow> int \<Rightarrow> jsstring" where
  "slice s start end =
     (let len = int (length s);
          from = (if start < 0 then max (len + start) 0 else min start len);
          to = (if end < 0 then max (len + end) 0 else min end len)
      in take (nat (to - from)) (drop (nat from) s))"

text \<open>
  \<open>s.lastIndexOf(c, position)\<close> for a one-character search string: the position is
  clamped between 0 and \<open>length - 1\<close>, and the answer is the largest index not after it
  that holds \<open>c\<close>, or -1. \<open>lastIndexAcc\<close> scans the code units up to the clamped
  position and keeps the last index where it saw \<open>c\<close>.
\<close>

fun lastIndexAcc :: "jsstring \<Rightarrow> jschar \<Rightarrow> int \<Rightarrow> int \<Rightarrow> int" where
  "lastIndexAcc [] c i found = found"
| "lastIndexAcc (x # xs) c i found = lastIndexAcc xs c (i + 1) (if x = c then i else found)"

definition lastIndexOf :: "jsstring \<Rightarrow> jschar \<Rightarrow> int \<Rightarrow> int" where
  "lastIndexOf s c position =
     (let start = max 0 (min position (int (length s) - 1))
      in lastIndexAcc (take (nat start + 1) s) c 0 (- 1))"

section \<open>Cleaning and validating text (upload-document/route.ts)\<close>

text \<open>
  \<open>text.replace(/[class]/g, ' ')\<close> for a character class: every code unit of the class
  becomes a space.
\<close>

definition replaceEach :: "(jschar \<Rightarrow> bool) \<Rightarrow> jsstring \<Rightarrow> jsstring" where
  "replaceEach cls s = map (\<lambda>c. if cls c then 0x20 else c) s"

text \<open>
  \<open>text.replace(/\s+/g, ' ')\<close>: every maximal run of white space becomes one space.
\<close>

function collapseWhiteSpace :: "jsstring \<Rightarrow> jsstring" where
  "collapseWhiteSpace [] = []"
| "collapseWhiteSpace (c # cs) =
     (if isWhiteSpace c then 0x20 # collapseWhiteSpace (dropWhile isWhiteSpace cs)
      else c # collapseWhiteSpace cs)"
  by pat_completeness auto
termination
  by (relation "measure length") (auto simp: length_dropWhile_le less_Suc_eq_le)

text \<open>The class \<open>[\x00-\x08\x0B\x0C\x0E-\x1F\x7F-\x9F]\<close> of the first replacement.\<close>

definition isControl :: "jschar \<Rightarrow> bool" where
  "isControl c =
     (c \<le> 0x08 \<or> c = 0x0B \<or> c = 0x0C \<or> (0x0E \<le> c \<and> c \<le> 0x1F) \<or> (0x7F \<le> c \<and> c \<le> 0x9F))"

text \<open>The negated class \<open>[^\x20-\x7E\s]\<close> of the second replacement.\<close>

definition notPrintableOrSpace :: "jschar \<Rightarrow> bool" where
  "notPrintableOrSpace c = (\<not> (0x20 \<le> c \<and> c \<le> 0x7E) \<and> \<not> isWhiteSpace c)"

definition cleanText :: "jsstring \<Rightarrow> jsstring" where
  "cleanText text =
     trim (collapseWhiteSpace (replaceEach notPrintableOrSpace (replaceEach isControl text)))"

text \<open>
  The class \<open>[a-zA-Z0-9\s.,!?;:()\-"']\<close> that \<open>isValidText\<close> counts.
\<close>

definition isReadable :: "jschar \<Rightarrow> bool" where
  "isReadable c =
     ((0x61 \<le> c \<and> c \<le> 0x7A) \<or> (0x41 \<le> c \<and> c \<le> 0x5A) \<or> (0x30 \<le> c \<and> c \<le> 0x39)
      \<or> isWhiteSpace c
      \<or> c = 0x2E \<or> c = 0x2C \<or> c = 0x21 \<or> c = 0x3F \<or> c = 0x3B \<or> c = 0x3A
      \<or> c = 0x28 \<or> c = 0x29 \<or> c = 0x2D \<or> c = 0x22 \<or> c = 0x27)"

text \<open>
  \<open>isValidText\<close>. The source divides two doubles and compares the quotient with the
  double \<open>0.7\<close>. Both the quotient of two integers and the literal are correctly
  rounded and rounding is monotone, so the comparison of doubles differs from the
  comparison of the exact values only when the exact quotient is within \<open>2^-53\<close> of
  \<open>7/10\<close> without being equal to it; it differs from \<open>7/10\<close> by at least
  \<open>1/(10 * length)\<close> otherwise, which is larger for every string a JavaScript engine
  can hold. The model therefore compares exact values.
\<close>

definition isValidText :: "jsstring \<Rightarrow> bool" where
  "isValidText text =
     (if length text < 10 then False
      else let printableCount = length (filter isReadable text);
               ratio = real printableCount / real (length text)
           in ratio > 0.7)"

text \<open>
  A string on which \<open>replace(/\s+/g, ' ')\<close> has nothing left to do: every white-space
  code unit is a space and is not followed by white space. The predicate is used to state
  what \<open>cleanText\<close> returns.
\<close>

fun collapsed :: "jsstring \<Rightarrow> bool" where
  "collapsed [] = True"
| "collapsed [c] = (isWhiteSpace c \<longrightarrow> c = 0x20)"
| "collapsed (c # d # cs) =
     ((isWhiteSpace c \<longrightarrow> c = 0x20 \<and> \<not> isWhiteSpace d) \<and> collapsed (d # cs))"

section \<open>The text splitter (upload-document/route.ts)\<close>

text \<open>
  The body of the loop up to the choice of \<open>end\<close>. The source compares
  \<open>lastSentence\<close> and \<open>lastSpace\<close> with \<open>start + chunkSize / 2\<close>, a half-integer
  when \<open>chunkSize\<close> is odd; the model compares the doubled values, so that all numbers
  stay integers. \<open>chunkSize\<close>, \<open>overlap\<close> and the cursor are integers of any sign: the
  cursor \<open>start\<close> becomes negative when \<open>overlap\<close> exceeds \<open>end\<close>.
\<close>

definition chunkEnd :: "jsstring \<Rightarrow> int \<Rightarrow> int \<Rightarrow> int" where
  "chunkEnd text chunkSize start =
     (let end = start + chunkSize
      in if end < int (length text) then
           (let lastSentence = lastIndexOf text 0x2E end;
                lastSpace = lastIndexOf text 0x20 end
            in if 2 * lastSentence > 2 * start + chunkSize then lastSentence + 1
               else if 2 * lastSpace > 2 * start + chunkSize then lastSpace
               else end)
         else end)"

text \<open>
  The \<open>while\<close> loop of \<open>splitTextIntoChunks\<close>, with the cursor \<open>start\<close> and the array
  \<open>chunks\<close> as its state. Nothing in the source bounds the number of iterations, so the
  loop is a partial function: \<open>None\<close> is a loop that never ends.
\<close>

partial_function (option) chunkLoop ::
  "jsstring \<Rightarrow> int \<Rightarrow> int \<Rightarrow> int \<Rightarrow> jsstring list \<Rightarrow> jsstring list option" where
  "chunkLoop text chunkSize overlap start chunks =
     (if start < int (length text) then
        (let end = chunkEnd text chunkSize start
         in chunkLoop text chunkSize overlap (end - overlap)
              (chunks @ [trim (slice text start end)]))
      else Some chunks)"

definition splitTextIntoChunks :: "jsstring \<Rightarrow> int \<Rightarrow> int \<Rightarrow> jsstring list option" where
  "splitTextIntoChunks text chunkSize overlap =
     map_option (filter (\<lambda>chunk. length chunk > 0)) (chunkLoop text chunkSize overlap 0 [])"

text \<open>
  The same loop, recording the window \<open>(start, end)\<close> of every iteration instead of the
  trimmed slice. It is not in the source; it names the positions the chunks are cut at.
\<close>

partial_function (option) windowLoop ::
  "jsstring \<Rightarrow> int \<Rightarrow> int \<Rightarrow> int \<Rightarrow> (int \<times> int) list \<Rightarrow> (int \<times> int) list option" where
  "windowLoop text chunkSize overlap start windows =
     (if start < int (length text) then
        (let end = chunkEnd text chunkSize start
         in windowLoop text chunkSize overlap (end - overlap) (windows @ [(start, end)]))
      else Some windows)"

definition splitWindows :: "jsstring \<Rightarrow> int \<Rightarrow> int \<Rightarrow> (int \<times> int) list option" where
  "splitWindows text chunkSize overlap = windowLoop text chunkSize overlap 0 []"

text \<open>
  The reconstruction the specification describes: the chunks are concatenated, each chunk
  but the last without its trailing \<open>overlap\<close> characters.
\<close>

fun dropOverlaps :: "nat \<Rightarrow> jsstring list \<Rightarrow> jsstring" where
  "dropOverlaps overlap [] = []"
| "dropOverlaps overlap [chunk] = chunk"
| "dropOverlaps overlap (chunk # chunks) =
     take (length chunk - overlap) chunk @ dropOverlaps overlap chunks"

section \<open>More string functions\<close>

text \<open>\<open>s.endsWith(searchString)\<close>.\<close>

definition endsWith :: "jsstring \<Rightarrow> jsstring \<Rightarrow> bool" where
  "endsWith s searchString =
     (length searchString \<le> length s
      \<and> drop (length s - length searchString) s = searchString)"

text \<open>
  The decimal digits of a non-negative integer, as a template literal renders a chunk
  index, a count or \<open>Date.now()\<close>.
\<close>

function showNat :: "nat \<Rightarrow> jsstring" where
  "showNat n =
     (if n < 10 then [of_nat (48 + n)]
      else showNat (n div 10) @ [of_nat (48 + n mod 10)])"
  by pat_completeness auto
termination
  by (relation "measure id") auto

declare showNat.simps [simp del]

text \<open>The number a string of decimal digits stands for; the inverse of \<open>showNat\<close>.\<close>

definition readNat :: "jsstring \<Rightarrow> nat" where
  "readNat s = foldl (\<lambda>v c. 10 * v + (unat c - 48)) 0 s"

text \<open>\<open>xs.join(sep)\<close>.\<close>

fun joinWith :: "jsstring \<Rightarrow> jsstring list \<Rightarrow> jsstring" where
  "joinWith sep [] = []"
| "joinWith sep [x] = x"
| "joinWith sep (x # xs) = x @ sep @ joinWith sep xs"

section \<open>External services\<close>

text \<open>
  The routes call services that are not part of the repository: the text decoders and
  case mappings of the JavaScript runtime, the clock, \<open>Math.random\<close>, the embedding
  model, the generative models and the vector index. Each is a field of the record
  \<open>services\<close>, so that every property below holds whatever these services answer.

  \<^item> \<open>decodeUtf8\<close> is \<open>new TextDecoder('utf-8', {fatal: true}).decode\<close>; \<open>None\<close> is the
    \<open>TypeError\<close> it throws on malformed input. \<open>decodeLatin1\<close> is
    \<open>new TextDecoder('iso-8859-1').decode\<close>.
  \<^item> \<open>toLowerCase\<close> and \<open>toUpperCase\<close> are the string methods.
  \<^item> \<open>embedContent k t\<close> is the outcome of the \<open>k\<close>-th call of \<open>model.embedContent\<close> of a
    request, made with the text \<open>t\<close>: it raises, or it answers with
    \<open>result.embedding.values\<close>, which is \<open>None\<close> when \<open>embedding\<close> or \<open>values\<close> is
    missing. The elements of a vector are of an arbitrary type \<open>'v\<close>.
  \<^item> \<open>random k\<close> is the value of the \<open>k\<close>-th \<open>Math.random() * 0.01\<close> of a request.
  \<^item> \<open>describeIndex\<close> tells whether \<open>pinecone.describeIndex\<close> returns (rather than
    throws), \<open>upsertRaises\<close> and \<open>queryRaises\<close> whether \<open>index.upsert\<close> and
    \<open>index.query\<close> throw; \<open>similarity\<close> is the score by which the index ranks a stored
    vector against a query vector.
  \<^item> \<open>generateContent m p\<close> is the text that the model \<open>m\<close> generates for the prompt
    \<open>p\<close>, or \<open>None\<close> when \<open>generateContent\<close> or \<open>response.text()\<close> throws.
  \<^item> \<open>analysisPrompts\<close> is the lookup \<open>analysisPrompts[key]\<close> in the constant table of
    five templates of the analysis route, \<open>None\<close> when it is \<open>undefined\<close>. The wording
    of the templates plays no role below.
  \<^item> \<open>dateNow i\<close> and \<open>toISOString i\<close> are \<open>Date.now()\<close> and
    \<open>new Date().toISOString()\<close> at the time the vector of the chunk \<open>i\<close> is built.
\<close>

datatype 'v embedResult = EmbedRaises | EmbedResponse "'v list option"

datatype modelName = Gemini15Flash | Gemini15Pro

record 'v services =
  decodeUtf8 :: "8 word list \<Rightarrow> jsstring option"
  decodeLatin1 :: "8 word list \<Rightarrow> jsstring"
  toLowerCase :: "jsstring \<Rightarrow> jsstring"
  toUpperCase :: "jsstring \<Rightarrow> jsstring"
  embedContent :: "nat \<Rightarrow> jsstring \<Rightarrow> 'v embedResult"
  random :: "nat \<Rightarrow> 'v"
  describeIndex :: bool
  upsertRaises :: bool
  queryRaises :: bool
  similarity :: "'v list \<Rightarrow> 'v list \<Rightarrow> real"
  generateContent :: "modelName \<Rightarrow> jsstring \<Rightarrow> jsstring option"
  analysisPrompts :: "jsstring \<Rightarrow> jsstring option"
  dateNow :: "nat \<Rightarrow> nat"
  toISOString :: "nat \<Rightarrow> jsstring"

section \<open>Values of a request body\<close>

text \<open>
  A field of the JSON body of a request is a string or a value that is not a string:
  \<open>null\<close>, a boolean, a number, an array or an object. Of a value that is not a string
  the analysis route observes two things only: whether it is truthy, and the string that
  a template literal makes of it, which is also the key under which it is looked up as a
  property; this conversion throws a \<open>TypeError\<close> for an object whose \<open>toString\<close> and
  \<open>valueOf\<close> are not functions. \<open>JsonOther t s\<close> is such a value, given by these two
  observations, \<open>s\<close> being \<open>None\<close> when the conversion throws: the number 5 is
  \<open>JsonOther True (Some "5")\<close>, \<open>null\<close> is \<open>JsonOther False (Some "null")\<close>, the array
  \<open>["risks"]\<close> is \<open>JsonOther True (Some "risks")\<close>, the object \<open>{"toString": 1}\<close> is
  \<open>JsonOther True None\<close>.

  \<open>truthy\<close> is the test \<open>!field\<close> negated, on a field that may be missing (\<open>None\<close>, the
  value \<open>undefined\<close>); \<open>templateString\<close> is the conversion of a template literal.
\<close>

datatype jsonValue = JsonString jsstring | JsonOther bool "jsstring option"

definition truthy :: "jsonValue option \<Rightarrow> bool" where
  "truthy field =
     (case field of
        None \<Rightarrow> False
      | Some (JsonString s) \<Rightarrow> s \<noteq> []
      | Some (JsonOther t s) \<Rightarrow> t)"

definition templateString :: "jsonValue \<Rightarrow> jsstring option" where
  "templateString v = (case v of JsonString s \<Rightarrow> Some s | JsonOther t s \<Rightarrow> s)"

section \<open>The vector index\<close>

text \<open>
  A record of the index as the upload route writes it: \<open>id\<close>, \<open>values\<close> and the
  \<open>metadata\<close> object. The index is the list of its records; a write is visible to the
  next query. \<open>upsert\<close> writes the records one by one, a record replacing the stored
  record of the same \<open>id\<close>. \<open>queryIndex\<close> is \<open>index.query\<close> with the filter
  \<open>filename: {$eq: fileName}\<close>: the \<open>topK\<close> records that score highest among those
  whose file name is the value \<open>fileName\<close>. The file name of a record is a string, so
  that no record matches a value that is not a string.
\<close>

record metadata =
  meta_filename :: jsstring
  meta_fileSize :: nat
  meta_uploadDate :: jsstring
  meta_chunkIndex :: nat
  meta_totalChunks :: nat
  meta_content :: jsstring
  meta_fileType :: jsstring

record 'v vectorRecord =
  vec_id :: jsstring
  vec_values :: "'v list"
  vec_metadata :: metadata

fun upsertOne :: "'v vectorRecord \<Rightarrow> 'v vectorRecord list \<Rightarrow> 'v vectorRecord list" where
  "upsertOne r [] = [r]"
| "upsertOne r (x # xs) = (if vec_id x = vec_id r then r # xs else x # upsertOne r xs)"

definition upsert ::
  "'v vectorRecord list \<Rightarrow> 'v vectorRecord list \<Rightarrow> 'v vectorRecord list" where
  "upsert vectors index = fold upsertOne vectors index"

definition queryIndex ::
  "'v services \<Rightarrow> 'v vectorRecord list \<Rightarrow> 'v list \<Rightarrow> nat \<Rightarrow> jsonValue
     \<Rightarrow> 'v vectorRecord list" where
  "queryIndex env index vector topK fileName =
     take topK (rev (sort_key (\<lambda>r. similarity env vector (vec_values r))
       (filter (\<lambda>r. JsonString (meta_filename (vec_metadata r)) = fileName) index)))"

section \<open>Embeddings (upload-document/route.ts)\<close>

text \<open>
  \<open>new Array(768).fill(0).map(() => Math.random() * 0.01)\<close>, when \<open>drawn\<close> random
  numbers have been used before.
\<close>

definition dummyEmbedding :: "'v services \<Rightarrow> nat \<Rightarrow> 'v list" where
  "dummyEmbedding env drawn = map (random env) [drawn ..< drawn + 768]"

text \<open>
  \<open>generateEmbeddings\<close>: the \<open>for\<close> loop over the texts. Its state is the array
  \<open>embeddings\<close>, the texts \<open>sent\<close> to the embedding model so far and the number of
  random numbers \<open>drawn\<close>. The \<open>try\<close> block turns a call that raises into a dummy
  embedding; nothing outside the \<open>try\<close> block can raise.
\<close>

record 'v embedState =
  embeddings :: "'v list list"
  sent :: "jsstring list"
  drawn :: nat

fun generateEmbeddingsLoop ::
  "'v services \<Rightarrow> jsstring list \<Rightarrow> 'v embedState \<Rightarrow> 'v embedState" where
  "generateEmbeddingsLoop env [] st = st"
| "generateEmbeddingsLoop env (text # texts) st =
     (if \<not> isValidText text then
        generateEmbeddingsLoop env texts
          (st\<lparr>embeddings := embeddings st @ [dummyEmbedding env (drawn st)],
              drawn := drawn st + 768\<rparr>)
      else
        (case embedContent env (length (sent st)) text of
           EmbedResponse (Some values) \<Rightarrow>
             generateEmbeddingsLoop env texts
               (st\<lparr>embeddings := embeddings st @ [values], sent := sent st @ [text]\<rparr>)
         | EmbedResponse None \<Rightarrow>
             generateEmbeddingsLoop env texts
               (st\<lparr>embeddings := embeddings st @ [dummyEmbedding env (drawn st)],
                   sent := sent st @ [text], drawn := drawn st + 768\<rparr>)
         | EmbedRaises \<Rightarrow>
             generateEmbeddingsLoop env texts
               (st\<lparr>embeddings := embeddings st @ [dummyEmbedding env (drawn st)],
                   sent := sent st @ [text], drawn := drawn st + 768\<rparr>)))"

definition generateEmbeddings :: "'v services \<Rightarrow> jsstring list \<Rightarrow> 'v embedState" where
  "generateEmbeddings env texts =
     generateEmbeddingsLoop env texts \<lparr>embeddings = [], sent = [], drawn = 0\<rparr>"

text \<open>
  Two notions to state what \<open>generateEmbeddings\<close> returns. \<open>callIndex texts i\<close> is the
  number of calls of the embedding model made before the text \<open>i\<close> is reached.
  \<open>embeddedAs env k t e\<close> says that \<open>e\<close> is the right vector for the text \<open>t\<close> when the
  next call is the \<open>k\<close>-th: a dummy embedding when the text is not valid, the values of
  the model when the text is valid and the model answers with values, and a dummy
  embedding when the text is valid and the model raises or answers without values.
\<close>

definition callIndex :: "jsstring list \<Rightarrow> nat \<Rightarrow> nat" where
  "callIndex texts i = length (filter isValidText (take i texts))"

definition embeddedAs :: "'v services \<Rightarrow> nat \<Rightarrow> jsstring \<Rightarrow> 'v list \<Rightarrow> bool" where
  "embeddedAs env k t e \<longleftrightarrow>
     (\<not> isValidText t \<longrightarrow> (\<exists>d. e = dummyEmbedding env d))
     \<and> (isValidText t \<longrightarrow>
          (\<forall>v. embedContent env k t = EmbedResponse (Some v) \<longrightarrow> e = v)
          \<and> ((\<forall>v. embedContent env k t \<noteq> EmbedResponse (Some v))
               \<longrightarrow> (\<exists>d. e = dummyEmbedding env d)))"

section \<open>The upload route (upload-document/route.ts)\<close>

text \<open>
  The uploaded \<open>File\<close>: its name, its declared type and its bytes; \<open>file.size\<close> is the
  number of bytes.
\<close>

record uploadedFile =
  file_name :: jsstring
  file_type :: jsstring
  file_bytes :: "8 word list"

definition file_size :: "uploadedFile \<Rightarrow> nat" where
  "file_size file = length (file_bytes file)"

text \<open>
  \<open>extractTextFromFile\<close>. Each \<open>throw\<close> is a value of \<open>extractError\<close>. In the branch of
  text files the \<open>catch\<close> replaces whatever was thrown inside the \<open>try\<close> block (the
  \<open>TypeError\<close> of the decoder or "Could not decode text file properly") by "Failed to
  read text file": \<open>ReadFailed\<close>.
\<close>

datatype extractError =
    PdfNotSupported | ReadFailed | DocxNotSupported | DocNotSupported | UnsupportedFileType

definition extractTextFromFile :: "'v services \<Rightarrow> uploadedFile \<Rightarrow> extractError + jsstring" where
  "extractTextFromFile env file =
     (if file_type file = js ''application/pdf'' \<or> endsWith (file_name file) (js ''.pdf'')
      then Inl PdfNotSupported
      else if file_type file = js ''text/plain'' \<or> endsWith (file_name file) (js ''.txt'')
      then
        (case decodeUtf8 env (file_bytes file) of
           None \<Rightarrow> Inl ReadFailed
         | Some decoded \<Rightarrow>
             (let text = cleanText decoded
              in if isValidText text then Inr text
                 else (let text = cleanText (decodeLatin1 env (file_bytes file))
                       in if isValidText text then Inr text else Inl ReadFailed)))
      else if endsWith (file_name file) (js ''.docx'') then Inl DocxNotSupported
      else if endsWith (file_name file) (js ''.doc'') then Inl DocNotSupported
      else Inl UnsupportedFileType)"

text \<open>
  The responses of the upload route. A failure is named after its message; its HTTP
  status is \<open>uploadStatus\<close>. \<open>ProcessingFailed\<close> is the response of the outer \<open>catch\<close>
  ("Failed to process document", status 500), with what was thrown.
\<close>

datatype uploadCause = FormDataError | ExtractionError extractError | UpsertError

datatype uploadFailure =
    NoFileProvided | FileTooLarge | OnlyTextSupported | NoTextExtracted | TextTooShort
  | UnreadableText | NoChunks | NoValidChunks | EmbeddingsMissing | IndexNotFound
  | ProcessingFailed uploadCause

fun uploadStatus :: "uploadFailure \<Rightarrow> nat" where
  "uploadStatus EmbeddingsMissing = 500"
| "uploadStatus IndexNotFound = 404"
| "uploadStatus (ProcessingFailed cause) = 500"
| "uploadStatus failure = 400"

record uploadSuccess =
  documentId :: jsstring
  chunksCreated :: nat
  vectorsUploaded :: nat
  extractedTextLength :: nat

datatype uploadResponse = UploadSuccess uploadSuccess | UploadFailure uploadFailure

text \<open>
  The request: \<open>request.formData()\<close> throws (\<open>MalformedForm\<close>), or the form has a file in
  its field \<open>document\<close> or has none.
\<close>

datatype uploadRequest = MalformedForm | Form "uploadedFile option"

text \<open>\<open>name.split('.').pop()\<close>: what follows the last dot, or the whole name.\<close>

definition lastSegment :: "jsstring \<Rightarrow> jsstring" where
  "lastSegment name = rev (takeWhile (\<lambda>c. c \<noteq> 0x2E) (rev name))"

text \<open>
  The \<open>id\<close> of the vector of a chunk: the file name with every code unit outside
  \<open>[a-zA-Z0-9.-]\<close> replaced by an underscore, then \<open>_chunk_\<close>, the chunk index, an
  underscore and \<open>Date.now()\<close>.
\<close>

definition isIdChar :: "jschar \<Rightarrow> bool" where
  "isIdChar c =
     ((0x61 \<le> c \<and> c \<le> 0x7A) \<or> (0x41 \<le> c \<and> c \<le> 0x5A) \<or> (0x30 \<le> c \<and> c \<le> 0x39)
      \<or> c = 0x2E \<or> c = 0x2D)"

definition vectorId :: "'v services \<Rightarrow> jsstring \<Rightarrow> nat \<Rightarrow> jsstring" where
  "vectorId env name chunkIndex =
     map (\<lambda>c. if isIdChar c then c else 0x5F) name
       @ js ''_chunk_'' @ showNat chunkIndex @ js ''_'' @ showNat (dateNow env chunkIndex)"

text \<open>\<open>validChunks.map((chunk, chunkIndex) => ...)\<close>: the records to store.\<close>

definition makeVectors ::
  "'v services \<Rightarrow> uploadedFile \<Rightarrow> jsstring \<Rightarrow> jsstring list \<Rightarrow> 'v list list \<Rightarrow> 'v vectorRecord list" where
  "makeVectors env file fileExtension validChunks embs =
     map (\<lambda>(chunkIndex, chunk).
            \<lparr>vec_id = vectorId env (file_name file) chunkIndex,
             vec_values = embs ! chunkIndex,
             vec_metadata =
               \<lparr>meta_filename = file_name file,
                meta_fileSize = file_size file,
                meta_uploadDate = toISOString env chunkIndex,
                meta_chunkIndex = chunkIndex,
                meta_totalChunks = length validChunks,
                meta_content = chunk,
                meta_fileType = fileExtension\<rparr>\<rparr>)
         (enumerate 0 validChunks)"

text \<open>
  The handler \<open>POST\<close> of the upload route. It takes the index and returns the response
  and the index after the request. The result is \<open>None\<close> when the splitter does not
  return. When \<open>index.upsert\<close> throws, the index is left as it was.
\<close>

definition uploadDocument ::
  "'v services \<Rightarrow> 'v vectorRecord list \<Rightarrow> uploadRequest
     \<Rightarrow> (uploadResponse \<times> 'v vectorRecord list) option" where
  "uploadDocument env index request =
     (case request of
        MalformedForm \<Rightarrow> Some (UploadFailure (ProcessingFailed FormDataError), index)
      | Form None \<Rightarrow> Some (UploadFailure NoFileProvided, index)
      | Form (Some file) \<Rightarrow>
          if file_size file > 5 * 1024 * 1024 then Some (UploadFailure FileTooLarge, index)
          else
            (let fileExtension = js ''.'' @ toLowerCase env (lastSegment (file_name file))
             in if fileExtension \<notin> set [js ''.txt'']
                then Some (UploadFailure OnlyTextSupported, index)
                else
                  (case extractTextFromFile env file of
                     Inl err \<Rightarrow> Some (UploadFailure (ProcessingFailed (ExtractionError err)), index)
                   | Inr extractedText \<Rightarrow>
                       if trim extractedText = [] then Some (UploadFailure NoTextExtracted, index)
                       else if length extractedText < 50 then Some (UploadFailure TextTooShort, index)
                       else if \<not> isValidText extractedText
                       then Some (UploadFailure UnreadableText, index)
                       else
                         (case splitTextIntoChunks extractedText 1000 200 of
                            None \<Rightarrow> None
                          | Some chunks \<Rightarrow>
                              if length chunks = 0 then Some (UploadFailure NoChunks, index)
                              else
                                (let limitedChunks = take 30 chunks;
                                     validChunks = filter isValidText limitedChunks
                                 in if length validChunks = 0
                                    then Some (UploadFailure NoValidChunks, index)
                                    else
                                      (let embs = embeddings (generateEmbeddings env validChunks)
                                       in if length embs \<noteq> length validChunks
                                          then Some (UploadFailure EmbeddingsMissing, index)
                                          else if \<not> describeIndex env
                                          then Some (UploadFailure IndexNotFound, index)
                                          else
                                            (let vectors =
                                                   makeVectors env file fileExtension validChunks embs
                                             in if upsertRaises env
                                                then Some (UploadFailure (ProcessingFailed UpsertError), index)
                                                else Some
                                                  (UploadSuccess
                                                     \<lparr>documentId = file_name file,
                                                      chunksCreated = length validChunks,
                                                      vectorsUploaded = length vectors,
                                                      extractedTextLength = length extractedText\<rparr>,
                                                   upsert vectors index))))))))"

section \<open>The analysis route (analyze-document/route.ts)\<close>

text \<open>
  The request: \<open>const { analysisType, fileName } = await request.json()\<close> throws
  (\<open>MalformedJson\<close>), or it gives the fields \<open>analysisType\<close> and \<open>fileName\<close> of the body,
  each a JSON value or missing. The responses: a failure is named after its message, with
  its HTTP status \<open>analysisStatus\<close>; \<open>AnalysisFailed\<close> is the response of the outer
  \<open>catch\<close>. A success echoes the two fields as they came. Besides its response the
  handler returns the list of what it did to obtain the analysis text, in order: the
  models it invoked, each with its prompt, and whether it built the basic extraction.
\<close>

datatype analysisRequest = MalformedJson | Json "jsonValue option" "jsonValue option"

datatype analysisFailure = MissingFields | DocumentNotFound | NoContentFound | AnalysisFailed

fun analysisStatus :: "analysisFailure \<Rightarrow> nat" where
  "analysisStatus MissingFields = 400"
| "analysisStatus DocumentNotFound = 404"
| "analysisStatus NoContentFound = 404"
| "analysisStatus AnalysisFailed = 500"

record analysisSuccess =
  r_analysis :: jsstring
  r_analysisType :: jsonValue
  r_fileName :: jsonValue
  r_chunksAnalyzed :: nat
  r_note :: "jsstring option"
  r_warning :: "jsstring option"

datatype analysisResponse = AnalysisSuccess analysisSuccess | AnalysisFailure analysisFailure

datatype analysisEvent = ModelInvoked modelName jsstring | BasicExtraction

text \<open>
  \<open>formatAnalysisType\<close>. The \<open>switch\<close> compares with \<open>===\<close>, so that a value that is not
  a string reaches the \<open>default\<close> branch, where \<open>type.charAt\<close> is not a function: the call
  throws a \<open>TypeError\<close>, which is \<open>None\<close>. On a string \<open>type.charAt(0)\<close> is \<open>take 1\<close> and
  \<open>type.slice(1)\<close> is \<open>drop 1\<close>.
\<close>

definition formatAnalysisType :: "'v services \<Rightarrow> jsonValue \<Rightarrow> jsstring option" where
  "formatAnalysisType env type =
     (case type of
        JsonString s \<Rightarrow>
          Some (if s = js ''summarize'' then js ''Document Summary''
                else if s = js ''detailed'' then js ''Detailed Analysis''
                else if s = js ''risks'' then js ''Risk Assessment''
                else if s = js ''key-terms'' then js ''Key Terms & Clauses''
                else if s = js ''plain-english'' then js ''Plain English Translation''
                else toUpperCase env (take 1 s) @ drop 1 s)
      | JsonOther t s \<Rightarrow> None)"

text \<open>
  The steps of the handler: the query embedding of the query text (a dummy embedding when
  the model raises or answers without values), the matches of the query (\<open>topK: 20\<close>), the
  content handed to the models, the system prompt
  (\<open>analysisPrompts[analysisType] || analysisPrompts.summarize\<close>, the key being the
  string made of \<open>analysisType\<close>), the prompt, and the text of the basic extraction, which
  is \<open>None\<close> when \<open>formatAnalysisType\<close> throws.
\<close>

definition queryEmbedding :: "'v services \<Rightarrow> jsstring \<Rightarrow> 'v list" where
  "queryEmbedding env queryText =
     (case embedContent env 0 queryText of
        EmbedResponse (Some values) \<Rightarrow> values
      | EmbedResponse None \<Rightarrow> dummyEmbedding env 0
      | EmbedRaises \<Rightarrow> dummyEmbedding env 0)"

definition queryMatches ::
  "'v services \<Rightarrow> 'v vectorRecord list \<Rightarrow> jsstring \<Rightarrow> jsonValue \<Rightarrow> 'v vectorRecord list" where
  "queryMatches env index queryText fileName =
     queryIndex env index (queryEmbedding env queryText) 20 fileName"

definition relevantContent :: "'v vectorRecord list \<Rightarrow> jsstring" where
  "relevantContent matches =
     joinWith (js ''\<newline>\<newline>'')
       (filter (\<lambda>content. content \<noteq> []) (map (\<lambda>match. meta_content (vec_metadata match)) matches))"

definition summarizePrompt :: "'v services \<Rightarrow> jsstring" where
  "summarizePrompt env =
     (case analysisPrompts env (js ''summarize'') of
        None \<Rightarrow> js ''undefined''
      | Some template \<Rightarrow> template)"

definition systemPrompt :: "'v services \<Rightarrow> jsstring \<Rightarrow> jsstring" where
  "systemPrompt env key =
     (case analysisPrompts env key of
        None \<Rightarrow> summarizePrompt env
      | Some template \<Rightarrow> if template = [] then summarizePrompt env else template)"

definition groundedPrompt :: "'v services \<Rightarrow> jsstring \<Rightarrow> jsstring \<Rightarrow> jsstring" where
  "groundedPrompt env key content =
     systemPrompt env key @ js ''\<newline>\<newline>Document Content:\<newline>'' @ content"

definition basicAnalysis ::
  "'v services \<Rightarrow> jsonValue \<Rightarrow> jsstring \<Rightarrow> nat \<Rightarrow> jsstring \<Rightarrow> jsstring option" where
  "basicAnalysis env analysisType nameText matchCount content =
     (case formatAnalysisType env analysisType of
        None \<Rightarrow> None
      | Some label \<Rightarrow>
          Some (js ''Document Analysis for '' @ nameText
            @ js ''\<newline>          \<newline>Analysis Type: '' @ label
            @ js ''\<newline>\<newline>Content Summary:\<newline>The document contains '' @ showNat matchCount
            @ js '' sections of content. \<newline>\<newline>Key Content Preview:\<newline>'' @ take 500 content
            @ js ''...\<newline>\<newline>Note: AI analysis is currently unavailable. This is a basic content extraction. Please try again later for full AI-powered analysis.''))"

text \<open>
  The handler \<open>POST\<close> of the analysis route. The query text
  \<open>`${analysisType} analysis of ${fileName}`\<close> is made first; when a field cannot be
  made a string the handler ends in the outer \<open>catch\<close>. So it does when the query throws,
  and when both models have raised and \<open>formatAnalysisType\<close> throws inside the last
  \<open>catch\<close>.
\<close>

definition analyzeDocument ::
  "'v services \<Rightarrow> 'v vectorRecord list \<Rightarrow> analysisRequest
     \<Rightarrow> analysisResponse \<times> analysisEvent list" where
  "analyzeDocument env index request =
     (case request of
        MalformedJson \<Rightarrow> (AnalysisFailure AnalysisFailed, [])
      | Json analysisTypeField fileNameField \<Rightarrow>
          if \<not> truthy analysisTypeField \<or> \<not> truthy fileNameField
          then (AnalysisFailure MissingFields, [])
          else
            (let analysisType = the analysisTypeField;
                 fileName = the fileNameField
             in case templateString analysisType of
                  None \<Rightarrow> (AnalysisFailure AnalysisFailed, [])
                | Some typeText \<Rightarrow>
             (case templateString fileName of
                  None \<Rightarrow> (AnalysisFailure AnalysisFailed, [])
                | Some nameText \<Rightarrow>
                if queryRaises env then (AnalysisFailure AnalysisFailed, [])
                else
                  (let matches = queryMatches env index
                                   (typeText @ js '' analysis of '' @ nameText) fileName
                   in if length matches = 0 then (AnalysisFailure DocumentNotFound, [])
                      else
                        (let content = relevantContent matches
                         in if content = [] then (AnalysisFailure NoContentFound, [])
                            else
                              (case generateContent env Gemini15Flash
                                      (groundedPrompt env typeText content) of
                                 Some analysis \<Rightarrow>
                                   (AnalysisSuccess
                                      \<lparr>r_analysis = analysis, r_analysisType = analysisType,
                                       r_fileName = fileName, r_chunksAnalyzed = length matches,
                                       r_note = None, r_warning = None\<rparr>,
                                    [ModelInvoked Gemini15Flash (groundedPrompt env typeText content)])
                               | None \<Rightarrow>
                                   (case generateContent env Gemini15Pro
                                           (groundedPrompt env typeText content) of
                                      Some analysis \<Rightarrow>
                                        (AnalysisSuccess
                                           \<lparr>r_analysis = analysis, r_analysisType = analysisType,
                                            r_fileName = fileName, r_chunksAnalyzed = length matches,
                                            r_note = Some (js ''Used fallback model due to primary model unavailability''),
                                            r_warning = None\<rparr>,
                                         [ModelInvoked Gemini15Flash (groundedPrompt env typeText content),
                                          ModelInvoked Gemini15Pro (groundedPrompt env typeText content)])
                                    | None \<Rightarrow>
                                        (case basicAnalysis env analysisType nameText
                                                (length matches) content of
                                           None \<Rightarrow>
                                             (AnalysisFailure AnalysisFailed,
                                              [ModelInvoked Gemini15Flash (groundedPrompt env typeText content),
                                               ModelInvoked Gemini15Pro (groundedPrompt env typeText content)])
                                         | Some analysis \<Rightarrow>
                                             (AnalysisSuccess
                                                \<lparr>r_analysis = analysis,
                                                 r_analysisType = analysisType,
                                                 r_fileName = fileName, r_chunksAnalyzed = length matches,
                                                 r_note = None,
                                                 r_warning = Some (js ''AI analysis unavailable - showing basic content extraction'')\<rparr>,
                                              [ModelInvoked Gemini15Flash (groundedPrompt env typeText content),
                                               ModelInvoked Gemini15Pro (groundedPrompt env typeText content),
                                               BasicExtraction])))))))))"

section \<open>Reading the reported counts\<close>

text \<open>
  \<open>chunksCreated\<close> of the response of an upload, the index an upload leaves, and
  \<open>chunksAnalyzed\<close> of the response of an analysis; \<open>None\<close> when there is no successful
  response.
\<close>

definition reportedChunksCreated ::
  "(uploadResponse \<times> 'v vectorRecord list) option \<Rightarrow> nat option" where
  "reportedChunksCreated result =
     (case result of
        Some (UploadSuccess r, index) \<Rightarrow> Some (chunksCreated r)
      | Some (UploadFailure failure, index) \<Rightarrow> None
      | None \<Rightarrow> None)"

definition indexAfter ::
  "(uploadResponse \<times> 'v vectorRecord list) option \<Rightarrow> 'v vectorRecord list" where
  "indexAfter result = (case result of Some (response, index) \<Rightarrow> index | None \<Rightarrow> [])"

definition reportedChunksAnalyzed :: "analysisResponse \<times> analysisEvent list \<Rightarrow> nat option" where
  "reportedChunksAnalyzed result =
     (case fst result of
        AnalysisSuccess s \<Rightarrow> Some (r_chunksAnalyzed s)
      | AnalysisFailure failure \<Rightarrow> None)"

section \<open>Example services, index and files\<close>

text \<open>
  Concrete services for the examples. The decoders read ASCII bytes, the case mappings
  are those of ASCII letters, the embedding model answers its first call with a vector of
  768 ones and raises afterwards, both generative models raise, the index exists and
  answers, every stored vector scores the same, and the clock stands at
  1700000000000. \<open>demoIndex\<close> holds one record of the file "lease.txt",
  \<open>deedIndex\<close> one record of the file "deed.txt".
  \<open>plainFile n\<close> is a text file "lease.txt" of \<open>n\<close> letters "a".
\<close>

definition asciiLower :: "jsstring \<Rightarrow> jsstring" where
  "asciiLower s = map (\<lambda>c. if 0x41 \<le> c \<and> c \<le> 0x5A then c + 0x20 else c) s"

definition asciiUpper :: "jsstring \<Rightarrow> jsstring" where
  "asciiUpper s = map (\<lambda>c. if 0x61 \<le> c \<and> c \<le> 0x7A then c - 0x20 else c) s"

definition demoServices :: "nat services" where
  "demoServices =
     \<lparr>decodeUtf8 = (\<lambda>bytes. if \<forall>b \<in> set bytes. b < 0x80 then Some (map ucast bytes) else None),
      decodeLatin1 = map ucast,
      toLowerCase = asciiLower,
      toUpperCase = asciiUpper,
      embedContent = (\<lambda>k t. if k = 0 then EmbedResponse (Some (replicate 768 1)) else EmbedRaises),
      random = (\<lambda>k. 0),
      describeIndex = True,
      upsertRaises = False,
      queryRaises = False,
      similarity = (\<lambda>u v. 0),
      generateContent = (\<lambda>m p. None),
      analysisPrompts = (\<lambda>k. if k = js ''summarize'' then Some (js ''Summarize:'') else None),
      dateNow = (\<lambda>i. 1700000000000),
      toISOString = (\<lambda>i. js ''2024-01-01T00:00:00.000Z'')\<rparr>"

definition demoIndex :: "nat vectorRecord list" where
  "demoIndex =
     [\<lparr>vec_id = js ''lease.txt_chunk_0_1700000000000'', vec_values = [],
       vec_metadata =
         \<lparr>meta_filename = js ''lease.txt'', meta_fileSize = 26,
          meta_uploadDate = js ''2024-01-01T00:00:00.000Z'', meta_chunkIndex = 0,
          meta_totalChunks = 1, meta_content = js ''The tenant shall pay rent.'',
          meta_fileType = js ''.txt''\<rparr>\<rparr>]"

definition deedIndex :: "nat vectorRecord list" where
  "deedIndex =
     [\<lparr>vec_id = js ''deed.txt_chunk_0_1600000000000'', vec_values = [],
       vec_metadata =
         \<lparr>meta_filename = js ''deed.txt'', meta_fileSize = 30,
          meta_uploadDate = js ''2020-09-13T12:26:40.000Z'', meta_chunkIndex = 0,
          meta_totalChunks = 1, meta_content = js ''The grantor conveys the land.'',
          meta_fileType = js ''.txt''\<rparr>\<rparr>]"

definition plainFile :: "nat \<Rightarrow> uploadedFile" where
  "plainFile n =
     \<lparr>file_name = js ''lease.txt'', file_type = js ''text/plain'', file_bytes = replicate n 0x61\<rparr>"

section \<open>Properties of the text functions\<close>

lemma isValidText_iff:
  "isValidText t \<longleftrightarrow> 10 \<le> length t \<and> 7 * length t < 10 * length (filter isReadable t)"
proof (cases "length t < 10")
  case True
  then show ?thesis by (simp add: isValidText_def)
next
  case False
  then have pos: "0 < real (length t)" by (cases t) auto
  have "real (length (filter isReadable t)) / real (length t) > 0.7
        \<longleftrightarrow> 7 * real (length t) < 10 * real (length (filter isReadable t))"
    using pos by (simp add: field_simps)
  also have "\<dots> \<longleftrightarrow> 7 * length t < 10 * length (filter isReadable t)"
    by (metis of_nat_less_iff of_nat_mult of_nat_numeral)
  finally show ?thesis using False by (simp add: isValidText_def Let_def)
qed

text \<open>
  C4 (the claim: a text is valid if and only if it has at least 10 characters and at
  least 70% of them are in the counted class; in particular a text with exactly 70% is
  valid). The source's comment asks for "at least 70%", yet the test it makes is the strict
  \<open>ratio > 0.7\<close>: the ten-character text below has exactly seven counted characters and
  is rejected.
\<close>

theorem isValidText_exactly_70_percent_rejected:
  "length (js ''abcdefg###'') = 10
   \<and> length (filter isReadable (js ''abcdefg###'')) = 7
   \<and> isValidText (js ''abcdefg###'') = False"
  by (simp add: js_def isValidText_def isReadable_def isWhiteSpace_def)

text \<open>
  C8: \<open>isValidText\<close> is monotonic under extension by counted characters: appending a
  string made only of characters of the counted class to a valid text gives a valid text;
  and a text of fewer than 10 characters is never valid.
\<close>

theorem isValidText_monotonic:
  "(isValidText t \<and> list_all isReadable s \<longrightarrow> isValidText (t @ s))
   \<and> (length t < 10 \<longrightarrow> \<not> isValidText t)"
proof -
  have "isValidText (t @ s)" if v: "isValidText t" and a: "list_all isReadable s"
  proof -
    from a have "filter isReadable s = s" by (simp add: list_all_iff)
    with v show ?thesis by (simp add: isValidText_iff)
  qed
  moreover have "\<not> isValidText t" if "length t < 10"
    using that by (simp add: isValidText_iff)
  ultimately show ?thesis by blast
qed

text \<open>
  Witness of C8: the valid text "hello world" stays valid with "!!" appended, and the
  five-character text "short" is invalid.
\<close>

theorem isValidText_monotonic_witness:
  "isValidText (js ''hello world'') \<and> list_all isReadable (js ''!!'')
   \<and> isValidText (js ''hello world'' @ js ''!!'')
   \<and> length (js ''short'') < 10 \<and> \<not> isValidText (js ''short'')"
  using isValidText_monotonic [of "js ''hello world''" "js ''!!''"]
    isValidText_monotonic [of "js ''short''" "[]"]
  by (simp add: js_def isValidText_def isReadable_def isWhiteSpace_def)

subsection \<open>What cleanText returns\<close>

lemma replaceEach_id: "\<forall>c \<in> set s. \<not> cls c \<Longrightarrow> replaceEach cls s = s"
  by (simp add: replaceEach_def map_idI)

lemma set_replaceEach: "c \<in> set (replaceEach cls s) \<Longrightarrow> c = 0x20 \<or> \<not> cls c"
  by (auto simp: replaceEach_def split: if_splits)

lemma printable_not_control: "0x20 \<le> c \<Longrightarrow> c \<le> 0x7E \<Longrightarrow> \<not> isControl c"
  by (auto simp: isControl_def word_le_nat_alt)

lemma take_eq_Cons_hd: "take n d = a # as \<Longrightarrow> d \<noteq> [] \<and> a = hd d"
  by (cases d; cases n) auto

lemma trim_eq_take_drop: "\<exists>m n. trim s = take m (drop n s)"
proof -
  define d where "d = dropWhile isWhiteSpace s"
  have "trim s = take (length d - length (takeWhile isWhiteSpace (rev d))) d"
    unfolding trim_def d_def [symmetric]
    by (simp add: dropWhile_eq_drop rev_drop)
  moreover have "d = drop (length (takeWhile isWhiteSpace s)) s"
    by (simp add: d_def dropWhile_eq_drop)
  ultimately show ?thesis by metis
qed

lemma dropWhile_trim: "dropWhile isWhiteSpace (trim s) = trim s"
proof -
  define d where "d = dropWhile isWhiteSpace s"
  have eq: "trim s = take (length d - length (takeWhile isWhiteSpace (rev d))) d"
    unfolding trim_def d_def [symmetric]
    by (simp add: dropWhile_eq_drop rev_drop)
  show ?thesis
  proof (cases "trim s")
    case Nil
    then show ?thesis by simp
  next
    case (Cons a as)
    with eq have "d \<noteq> [] \<and> a = hd d" using take_eq_Cons_hd by metis
    then have "\<not> isWhiteSpace a" unfolding d_def using hd_dropWhile by metis
    with Cons show ?thesis by simp
  qed
qed

lemma trim_trim: "trim (trim s) = trim s"
proof -
  have "trim (trim s) = rev (dropWhile isWhiteSpace (rev (trim s)))"
    by (simp add: trim_def [of "trim s"] dropWhile_trim)
  also have "\<dots> = trim s" by (simp add: trim_def)
  finally show ?thesis .
qed

lemma set_trim: "c \<in> set (trim s) \<Longrightarrow> c \<in> set s"
  using trim_eq_take_drop [of s] by (metis in_set_dropD in_set_takeD)

lemma collapsed_Cons:
  "collapsed (c # s) \<longleftrightarrow>
     (isWhiteSpace c \<longrightarrow> c = 0x20 \<and> (s \<noteq> [] \<longrightarrow> \<not> isWhiteSpace (hd s))) \<and> collapsed s"
  by (cases s) auto

lemma collapsed_fix: "collapsed s \<Longrightarrow> collapseWhiteSpace s = s"
  by (induction s rule: collapsed.induct) auto

lemma collapse_hd:
  "s \<noteq> [] \<Longrightarrow> \<not> isWhiteSpace (hd s) \<Longrightarrow>
     collapseWhiteSpace s \<noteq> [] \<and> hd (collapseWhiteSpace s) = hd s"
  by (cases s) auto

lemma collapsed_collapse: "collapsed (collapseWhiteSpace s)"
proof (induction s rule: collapseWhiteSpace.induct)
  case 1
  then show ?case by simp
next
  case (2 c cs)
  show ?case
  proof (cases "isWhiteSpace c")
    case True
    define r where "r = dropWhile isWhiteSpace cs"
    have "r \<noteq> [] \<Longrightarrow> \<not> isWhiteSpace (hd r)"
      unfolding r_def using hd_dropWhile by metis
    then have "collapseWhiteSpace r \<noteq> [] \<longrightarrow> \<not> isWhiteSpace (hd (collapseWhiteSpace r))"
      using collapse_hd [of r] by (cases r) auto
    with 2 True show ?thesis by (simp add: collapsed_Cons r_def)
  next
    case False
    with 2 show ?thesis by (simp add: collapsed_Cons)
  qed
qed

lemma collapsed_drop: "collapsed s \<Longrightarrow> collapsed (drop n s)"
proof (induction n arbitrary: s)
  case 0
  then show ?case by simp
next
  case (Suc n)
  then show ?case by (cases s) (auto simp: collapsed_Cons)
qed

lemma collapsed_take: "collapsed s \<Longrightarrow> collapsed (take n s)"
proof (induction s arbitrary: n)
  case Nil
  then show ?case by simp
next
  case (Cons c s)
  show ?case
  proof (cases n)
    case 0
    then show ?thesis by simp
  next
    case (Suc m)
    from Cons have "collapsed (take m s)" by (simp add: collapsed_Cons)
    moreover have "take m s \<noteq> [] \<Longrightarrow> hd (take m s) = hd s \<and> s \<noteq> []"
      by (cases s; cases m) auto
    ultimately show ?thesis using Cons.prems Suc by (auto simp: collapsed_Cons)
  qed
qed

lemma collapsed_trim: "collapsed s \<Longrightarrow> collapsed (trim s)"
  using trim_eq_take_drop [of s] collapsed_take collapsed_drop by metis

lemma set_collapse:
  "c \<in> set (collapseWhiteSpace s) \<Longrightarrow> c = 0x20 \<or> (c \<in> set s \<and> \<not> isWhiteSpace c)"
  by (induction s rule: collapseWhiteSpace.induct) (auto split: if_splits dest: set_dropWhileD)

lemma cleanText_printable:
  assumes "c \<in> set (cleanText s)"
  shows "0x20 \<le> c \<and> c \<le> 0x7E"
proof -
  let ?a = "replaceEach notPrintableOrSpace (replaceEach isControl s)"
  from assms have "c \<in> set (collapseWhiteSpace ?a)"
    unfolding cleanText_def by (rule set_trim)
  then have "c = 0x20 \<or> (c \<in> set ?a \<and> \<not> isWhiteSpace c)"
    by (rule set_collapse)
  then have "c = 0x20 \<or> (\<not> notPrintableOrSpace c \<and> \<not> isWhiteSpace c)"
    by (auto dest: set_replaceEach)
  then show ?thesis by (auto simp: notPrintableOrSpace_def)
qed

lemma cleanText_collapsed: "collapsed (cleanText s)"
  unfolding cleanText_def by (rule collapsed_trim) (rule collapsed_collapse)

lemma cleanText_fixed:
  assumes p: "\<forall>c \<in> set r. 0x20 \<le> c \<and> c \<le> 0x7E" and c: "collapsed r" and t: "trim r = r"
  shows "cleanText r = r"
proof -
  have 1: "replaceEach isControl r = r"
    using p printable_not_control by (intro replaceEach_id) blast
  have 2: "replaceEach notPrintableOrSpace r = r"
    using p by (intro replaceEach_id) (auto simp: notPrintableOrSpace_def)
  have 3: "collapseWhiteSpace r = r"
    using c by (rule collapsed_fix)
  show ?thesis
    by (subst cleanText_def) (simp only: 1 2 3 t)
qed

text \<open>
  C9: \<open>cleanText\<close> is idempotent: cleaning a text that \<open>cleanText\<close> returned gives the
  same text back.
\<close>

theorem cleanText_idempotent: "cleanText (cleanText s) = cleanText s"
proof (rule cleanText_fixed)
  show "\<forall>c \<in> set (cleanText s). 0x20 \<le> c \<and> c \<le> 0x7E"
    using cleanText_printable by blast
  show "collapsed (cleanText s)"
    by (rule cleanText_collapsed)
  show "trim (cleanText s) = cleanText s"
    unfolding cleanText_def by (rule trim_trim)
qed

subsection \<open>Texts without white space\<close>

lemma isValidText_replicate: "isReadable a \<Longrightarrow> isValidText (replicate n a) \<longleftrightarrow> 10 \<le> n"
  by (auto simp: isValidText_iff filter_replicate)

lemma isValidText_nonempty: "isValidText t \<Longrightarrow> t \<noteq> []"
  by (auto simp: isValidText_iff)

lemma a_facts:
  "isReadable 0x61" "\<not> isWhiteSpace 0x61" "(0x61 :: jschar) \<noteq> 0x2E" "(0x61 :: jschar) \<noteq> 0x20"
  by (simp_all add: isReadable_def isWhiteSpace_def)

lemma not_ws_printable: "0x21 \<le> c \<Longrightarrow> c \<le> 0x7E \<Longrightarrow> \<not> isWhiteSpace c"
  by (auto simp: isWhiteSpace_def word_le_nat_alt)

lemma collapsed_no_ws: "\<forall>c \<in> set s. \<not> isWhiteSpace c \<Longrightarrow> collapsed s"
  by (induction s rule: collapsed.induct) auto

lemma trim_no_ws:
  assumes "\<forall>c \<in> set s. \<not> isWhiteSpace c"
  shows "trim s = s"
proof -
  from assms have "dropWhile isWhiteSpace s = s" by (cases s) auto
  moreover from assms have "dropWhile isWhiteSpace (rev s) = rev s" by (cases "rev s") auto
  ultimately show ?thesis by (simp add: trim_def)
qed

lemma cleanText_plain:
  assumes "\<forall>c \<in> set s. 0x21 \<le> c \<and> c \<le> 0x7E"
  shows "cleanText s = s"
proof (rule cleanText_fixed)
  show "\<forall>c \<in> set s. 0x20 \<le> c \<and> c \<le> 0x7E"
    using assms by (auto simp: word_le_nat_alt)
  have "\<forall>c \<in> set s. \<not> isWhiteSpace c" using assms not_ws_printable by blast
  then show "collapsed s" "trim s = s" by (simp_all add: collapsed_no_ws trim_no_ws)
qed

section \<open>Properties of the text splitter\<close>

subsection \<open>Texts without a full stop or a space\<close>

lemma lastIndexAcc_absent: "c \<notin> set xs \<Longrightarrow> lastIndexAcc xs c i found = found"
  by (induction xs arbitrary: i found) auto

lemma lastIndexOf_absent: "c \<notin> set s \<Longrightarrow> lastIndexOf s c position = - 1"
  unfolding lastIndexOf_def Let_def
  by (rule lastIndexAcc_absent) (auto dest: in_set_takeD)

lemma chunkEnd_plain:
  assumes "0x2E \<notin> set t" "0x20 \<notin> set t" "0 \<le> 2 * start + chunkSize + 2"
  shows "chunkEnd t chunkSize start = start + chunkSize"
  using assms by (simp add: chunkEnd_def Let_def lastIndexOf_absent)

lemma chunkEnd_a: "0 \<le> start \<Longrightarrow> chunkEnd (replicate n 0x61) 1000 start = start + 1000"
  by (rule chunkEnd_plain) (auto simp: a_facts)

lemma slice_replicate:
  "0 \<le> start \<Longrightarrow> 0 \<le> e \<Longrightarrow>
     slice (replicate n a) start e
       = replicate (min (nat (min e (int n) - min start (int n))) (n - nat (min start (int n)))) a"
  by (simp add: slice_def Let_def)

lemma trim_replicate_a: "trim (replicate k 0x61) = replicate k 0x61"
  by (rule trim_no_ws) (auto simp: a_facts)

lemmas split_a =
  splitTextIntoChunks_def chunkLoop.simps chunkEnd_a slice_replicate trim_replicate_a Let_def

lemma split100: "splitTextIntoChunks (replicate 100 0x61) 1000 200 = Some [replicate 100 0x61]"
  by (simp add: split_a)

lemma split805:
  "splitTextIntoChunks (replicate 805 0x61) 1000 200 = Some [replicate 805 0x61, replicate 5 0x61]"
  by (simp add: split_a)

lemma replicate_21:
  "replicate 21 x = [x, x, x, x, x, x, x, x, x, x, x, x, x, x, x, x, x, x, x, x, x]"
  by (simp add: numeral_eq_Suc)

lemma split17000:
  "splitTextIntoChunks (replicate 17000 0x61) 1000 200
   = Some (replicate 21 (replicate 1000 0x61) @ [replicate 200 0x61])"
  unfolding replicate_21 by (simp add: split_a)

lemma valid100:
  "filter isValidText (take 30 [replicate 100 (0x61 :: jschar)]) = [replicate 100 0x61]"
  by (simp add: isValidText_replicate a_facts)

lemma valid805:
  "filter isValidText (take 30 [replicate 805 0x61, replicate 5 (0x61 :: jschar)])
     = [replicate 805 0x61]"
  by (simp add: isValidText_replicate a_facts)

lemma valid17000:
  "filter isValidText (take 30 (replicate 21 (replicate 1000 0x61) @ [replicate 200 0x61]))
     = replicate 21 (replicate 1000 0x61) @ [replicate 200 0x61]"
  by (simp add: isValidText_replicate a_facts)

subsection \<open>Termination\<close>

lemma chunkEnd_advance:
  assumes "overlap < chunkSize" "2 * overlap \<le> chunkSize"
  shows "start < chunkEnd t chunkSize start - overlap"
  using assms by (auto simp: chunkEnd_def Let_def)

lemma chunkLoop_terminates:
  assumes "overlap < chunkSize" "2 * overlap \<le> chunkSize"
  shows "\<exists>r. chunkLoop t chunkSize overlap start chunks = Some r"
proof (induction "nat (int (length t) - start)" arbitrary: start chunks rule: less_induct)
  case less
  show ?case
  proof (cases "start < int (length t)")
    case False
    then show ?thesis by (subst chunkLoop.simps) simp
  next
    case True
    let ?e = "chunkEnd t chunkSize start"
    have "start < ?e - overlap" using assms by (rule chunkEnd_advance)
    with True have "nat (int (length t) - (?e - overlap)) < nat (int (length t) - start)"
      by linarith
    from less [OF this] obtain r where
      "chunkLoop t chunkSize overlap (?e - overlap) (chunks @ [trim (slice t start ?e)]) = Some r"
      by blast
    with True show ?thesis by (subst chunkLoop.simps) (simp add: Let_def)
  qed
qed

text \<open>A cursor that the body of the loop sends back to itself is never left.\<close>

lemma chunkLoop_stuck:
  assumes "chunkLoop t cs ov st acc = Some r"
  shows "\<not> (st < int (length t) \<and> chunkEnd t cs st - ov = st)"
  using assms
proof (rule chunkLoop.raw_induct [rotated, where P = "\<lambda>t cs ov st acc r.
         \<not> (st < int (length t) \<and> chunkEnd t cs st - ov = st)"])
  fix f :: "jsstring \<Rightarrow> int \<Rightarrow> int \<Rightarrow> int \<Rightarrow> jsstring list \<Rightarrow> jsstring list option"
    and t cs ov st acc r
  assume IH: "\<And>t cs ov st acc r. f t cs ov st acc = Some r \<Longrightarrow>
          \<not> (st < int (length t) \<and> chunkEnd t cs st - ov = st)"
    and step: "(if st < int (length t) then
        (let e = chunkEnd t cs st
         in f t cs ov (e - ov) (acc @ [trim (slice t st e)]))
      else Some acc) = Some r"
  show "\<not> (st < int (length t) \<and> chunkEnd t cs st - ov = st)"
  proof
    assume a: "st < int (length t) \<and> chunkEnd t cs st - ov = st"
    with step have "f t cs ov st (acc @ [trim (slice t st (chunkEnd t cs st))]) = Some r"
      by (simp add: Let_def)
    from IH [OF this] a show False by simp
  qed
qed

lemma chunkLoop_stuck_None:
  "st < int (length t) \<Longrightarrow> chunkEnd t cs st - ov = st \<Longrightarrow> chunkLoop t cs ov st acc = None"
  using chunkLoop_stuck [of t cs ov st acc] by (cases "chunkLoop t cs ov st acc") auto

text \<open>
  C1 (the claim: for every text and every \<open>overlap < chunkSize\<close> the splitter terminates,
  the cursor advancing on every iteration, and it fails fast when
  \<open>overlap \<ge> chunkSize\<close>). The source has no test of its parameters. With
  \<open>overlap = chunkSize = 1\<close> the cursor of the one-character text "a" goes from 0 to 0 and
  the loop never ends. And with \<open>chunkSize = 10\<close> and \<open>overlap = 8\<close>, which satisfy
  \<open>overlap < chunkSize\<close>, the text "aaaaaa aaaaaaa" is cut at the space at index 6 and
  the cursor goes from 0 to -2; from -2 the cut is at index 6 again and the cursor stays
  at -2: the loop never ends.
\<close>

theorem splitTextIntoChunks_diverges_counterexample:
  "chunkEnd (js ''a'') 1 0 - 1 = 0
   \<and> splitTextIntoChunks (js ''a'') 1 1 = None
   \<and> (8::int) < 10
   \<and> chunkEnd (js ''aaaaaa aaaaaaa'') 10 0 - 8 = - 2
   \<and> chunkEnd (js ''aaaaaa aaaaaaa'') 10 (- 2) - 8 = - 2
   \<and> splitTextIntoChunks (js ''aaaaaa aaaaaaa'') 10 8 = None"
proof -
  have 0: "chunkEnd (js ''a'') 1 0 - 1 = 0"
    by (simp add: js_def chunkEnd_def)
  have a: "splitTextIntoChunks (js ''a'') 1 1 = None"
    unfolding splitTextIntoChunks_def
    by (subst chunkLoop_stuck_None) (simp_all add: js_def chunkEnd_def)
  have 1: "chunkEnd (js ''aaaaaa aaaaaaa'') 10 0 = 6"
    by (simp add: js_def chunkEnd_def lastIndexOf_def Let_def)
  have 2: "chunkEnd (js ''aaaaaa aaaaaaa'') 10 (- 2) - 8 = - 2"
    by (simp add: js_def chunkEnd_def lastIndexOf_def Let_def)
  have 3: "chunkLoop (js ''aaaaaa aaaaaaa'') 10 8 (- 2) acc = None" for acc
    by (rule chunkLoop_stuck_None) (simp add: js_def, rule 2)
  have "chunkLoop (js ''aaaaaa aaaaaaa'') 10 8 0 [] = None"
    by (subst chunkLoop.simps) (simp add: 1 3 Let_def, simp add: js_def)
  then have b: "splitTextIntoChunks (js ''aaaaaa aaaaaaa'') 10 8 = None"
    by (simp add: splitTextIntoChunks_def)
  from 0 a 1 2 b show ?thesis by simp
qed

text \<open>
  C1, amended: when \<open>overlap < chunkSize\<close> and \<open>overlap\<close> is at most half of
  \<open>chunkSize\<close> (as with the defaults 1000 and 200, the only values the route calls the
  splitter with), the cursor advances on every iteration, whatever the text and the
  cursor, and \<open>splitTextIntoChunks\<close> returns.
\<close>

theorem splitTextIntoChunks_terminates:
  assumes "overlap < chunkSize" and "2 * overlap \<le> chunkSize"
  shows "(\<exists>chunks. splitTextIntoChunks t chunkSize overlap = Some chunks)
         \<and> start < chunkEnd t chunkSize start - overlap"
proof -
  from chunkLoop_terminates [OF assms, of t 0 "[]"]
  have "\<exists>chunks. splitTextIntoChunks t chunkSize overlap = Some chunks"
    by (auto simp: splitTextIntoChunks_def)
  with chunkEnd_advance [OF assms, of start t] show ?thesis by simp
qed

text \<open>
  Witness of C1, amended: the defaults 1000 and 200 on a short text, which comes back as
  one chunk; the cursor 0 advances to 800.
\<close>

theorem splitTextIntoChunks_terminates_witness:
  "(200::int) < 1000 \<and> 2 * (200::int) \<le> 1000
   \<and> splitTextIntoChunks (js ''Hello world. Bye.'') 1000 200 = Some [js ''Hello world. Bye.'']
   \<and> chunkEnd (js ''Hello world. Bye.'') 1000 0 - 200 = 800"
  using splitTextIntoChunks_terminates [of 200 1000 "js ''Hello world. Bye.''" 0]
  by (simp add: js_def splitTextIntoChunks_def chunkLoop.simps chunkEnd_def slice_def
      trim_def isWhiteSpace_def Let_def)

lemma slice_step:
  assumes "0 \<le> st" "st < e"
  shows "slice t st e @ drop (nat e) t = drop (nat st) t"
proof (cases "st < int (length t)")
  case True
  then have s: "slice t st e = take (nat (min e (int (length t)) - st)) (drop (nat st) t)"
    using assms by (simp add: slice_def Let_def min_def)
  show ?thesis
  proof (cases "e \<le> int (length t)")
    case True
    have "nat (e - st) + nat st = nat e" using assms by simp
    then have d: "drop (nat (e - st)) (drop (nat st) t) = drop (nat e) t" by simp
    have "take (nat (e - st)) (drop (nat st) t) @ drop (nat (e - st)) (drop (nat st) t)
          = drop (nat st) t"
      by (rule append_take_drop_id)
    with d have "take (nat (e - st)) (drop (nat st) t) @ drop (nat e) t = drop (nat st) t"
      by (simp only:)
    with s True show ?thesis by (simp add: min_def)
  next
    case False
    with s True show ?thesis by (simp add: min_def)
  qed
next
  case False
  then show ?thesis using assms by (simp add: slice_def Let_def)
qed

lemma windows_cover:
  assumes "0 \<le> ov" "2 * ov \<le> cs" "0 < cs" "0 \<le> st"
  shows "\<exists>ws'. windowLoop t cs ov st ws = Some (ws @ ws')
           \<and> chunkLoop t cs ov st acc = Some (acc @ map (\<lambda>(s, e). trim (slice t s e)) ws')
           \<and> concat (map (\<lambda>(s, e). slice t s (e - ov)) ws') = drop (nat st) t"
  using assms(4)
proof (induction "nat (int (length t) - st)" arbitrary: st ws acc rule: less_induct)
  case less
  show ?case
  proof (cases "st < int (length t)")
    case False
    then have "windowLoop t cs ov st ws = Some ws" "chunkLoop t cs ov st acc = Some acc"
      by (subst windowLoop.simps, simp, subst chunkLoop.simps, simp)
    moreover have "drop (nat st) t = []" using False by simp
    ultimately show ?thesis by simp
  next
    case True
    define e where "e = chunkEnd t cs st"
    have adv: "st < e - ov"
      unfolding e_def using assms(1-3) by (intro chunkEnd_advance) auto
    with True have m: "nat (int (length t) - (e - ov)) < nat (int (length t) - st)"
      by linarith
    from adv less.prems have pos: "0 \<le> e - ov" by simp
    from less.hyps [OF m pos, of "ws @ [(st, e)]" "acc @ [trim (slice t st e)]"]
    obtain ws' where
      w: "windowLoop t cs ov (e - ov) (ws @ [(st, e)]) = Some ((ws @ [(st, e)]) @ ws')"
      and c: "chunkLoop t cs ov (e - ov) (acc @ [trim (slice t st e)])
                = Some ((acc @ [trim (slice t st e)]) @ map (\<lambda>(s, e). trim (slice t s e)) ws')"
      and k: "concat (map (\<lambda>(s, e). slice t s (e - ov)) ws') = drop (nat (e - ov)) t"
      by blast
    have 1: "windowLoop t cs ov st ws = Some (ws @ ((st, e) # ws'))"
      using True w by (subst windowLoop.simps) (simp add: Let_def e_def)
    have 2: "chunkLoop t cs ov st acc
               = Some (acc @ map (\<lambda>(s, e). trim (slice t s e)) ((st, e) # ws'))"
      using True c by (subst chunkLoop.simps) (simp add: Let_def e_def)
    have 3: "concat (map (\<lambda>(s, e). slice t s (e - ov)) ((st, e) # ws')) = drop (nat st) t"
      using k slice_step [OF less.prems adv] by simp
    from 1 2 3 show ?thesis by blast
  qed
qed

text \<open>
  C2 (the claim: for \<open>overlap < chunkSize\<close>, the returned chunks, concatenated with the
  trailing \<open>overlap\<close> characters of every chunk but the last dropped, reconstruct the
  text). The three texts below are normalised (\<open>cleanText\<close> leaves them as they are). In
  the first, the windows at the end of the text are cut short by the end of the text and
  overlap their successors by more than \<open>overlap\<close> characters: the reconstruction loses
  the "h", and is no prefix of the text. In the second, a chunk that starts at the space
  is trimmed: the reconstruction loses the space and more. The third is a text of 1700
  letters "a" with the defaults 1000 and 200: the chunks have 1000, 900 and 100 letters,
  and the reconstruction has 1600.
\<close>

theorem splitTextIntoChunks_reconstruct_counterexample:
  "cleanText (js ''abcdefghi'') = js ''abcdefghi''
   \<and> splitTextIntoChunks (js ''abcdefghi'') 4 2
       = Some [js ''abcd'', js ''cdef'', js ''efgh'', js ''ghi'', js ''i'']
   \<and> dropOverlaps 2 [js ''abcd'', js ''cdef'', js ''efgh'', js ''ghi'', js ''i'']
       = js ''abcdefgi''
   \<and> js ''abcdefgi'' \<noteq> js ''abcdefghi''
   \<and> \<not> prefix (js ''abcdefgi'') (js ''abcdefghi'')
   \<and> cleanText (js ''ab cdefgh'') = js ''ab cdefgh''
   \<and> splitTextIntoChunks (js ''ab cdefgh'') 4 2
       = Some [js ''ab c'', js ''cde'', js ''defg'', js ''fgh'', js ''h'']
   \<and> dropOverlaps 2 [js ''ab c'', js ''cde'', js ''defg'', js ''fgh'', js ''h'']
       = js ''abcdefh''
   \<and> js ''abcdefh'' \<noteq> js ''ab cdefgh''
   \<and> \<not> prefix (js ''abcdefh'') (js ''ab cdefgh'')
   \<and> cleanText (replicate 1700 0x61) = replicate 1700 0x61
   \<and> splitTextIntoChunks (replicate 1700 0x61) 1000 200
       = Some [replicate 1000 0x61, replicate 900 0x61, replicate 100 0x61]
   \<and> length (dropOverlaps 200 [replicate 1000 0x61, replicate 900 0x61, replicate 100 (0x61 :: jschar)])
       = 1600
   \<and> length (replicate 1700 (0x61 :: jschar)) = 1700"
proof -
  have small: "cleanText (js ''abcdefghi'') = js ''abcdefghi''
   \<and> splitTextIntoChunks (js ''abcdefghi'') 4 2
       = Some [js ''abcd'', js ''cdef'', js ''efgh'', js ''ghi'', js ''i'']
   \<and> dropOverlaps 2 [js ''abcd'', js ''cdef'', js ''efgh'', js ''ghi'', js ''i'']
       = js ''abcdefgi''
   \<and> js ''abcdefgi'' \<noteq> js ''abcdefghi''
   \<and> \<not> prefix (js ''abcdefgi'') (js ''abcdefghi'')
   \<and> cleanText (js ''ab cdefgh'') = js ''ab cdefgh''
   \<and> splitTextIntoChunks (js ''ab cdefgh'') 4 2
       = Some [js ''ab c'', js ''cde'', js ''defg'', js ''fgh'', js ''h'']
   \<and> dropOverlaps 2 [js ''ab c'', js ''cde'', js ''defg'', js ''fgh'', js ''h'']
       = js ''abcdefh''
   \<and> js ''abcdefh'' \<noteq> js ''ab cdefgh''
   \<and> \<not> prefix (js ''abcdefh'') (js ''ab cdefgh'')"
    by (simp add: js_def splitTextIntoChunks_def chunkLoop.simps chunkEnd_def lastIndexOf_def
        slice_def trim_def isWhiteSpace_def Let_def cleanText_def replaceEach_def isControl_def
        notPrintableOrSpace_def)
  have c: "cleanText (replicate 1700 0x61) = replicate 1700 0x61"
    by (rule cleanText_plain) simp
  have s: "splitTextIntoChunks (replicate 1700 0x61) 1000 200
       = Some [replicate 1000 0x61, replicate 900 0x61, replicate 100 0x61]"
    by (simp add: split_a)
  have d: "length (dropOverlaps 200
             [replicate 1000 0x61, replicate 900 0x61, replicate 100 (0x61 :: jschar)]) = 1600"
    by simp
  from small c s d show ?thesis by simp
qed

text \<open>
  C2, amended: when \<open>0 \<le> overlap\<close>, \<open>overlap\<close> is at most half of \<open>chunkSize\<close> and
  \<open>chunkSize\<close> is positive, the splitter returns the non-empty trimmed slices of the
  windows \<open>(start, end)\<close> its loop visits, in order, and the untrimmed slices of the text
  from each window's \<open>start\<close> to \<open>overlap\<close> characters before its \<open>end\<close>, concatenated in
  order, are the text.
\<close>

theorem splitTextIntoChunks_windows_reconstruct:
  assumes "0 \<le> overlap" and "2 * overlap \<le> chunkSize" and "0 < chunkSize"
  shows "\<exists>ws. splitWindows t chunkSize overlap = Some ws
           \<and> splitTextIntoChunks t chunkSize overlap
               = Some (filter (\<lambda>chunk. length chunk > 0) (map (\<lambda>(s, e). trim (slice t s e)) ws))
           \<and> concat (map (\<lambda>(s, e). slice t s (e - overlap)) ws) = t"
proof -
  have "(0::int) \<le> 0" by simp
  from windows_cover [OF assms this, of t "[]" "[]"]
  show ?thesis by (auto simp: splitWindows_def splitTextIntoChunks_def)
qed

text \<open>
  Witness of C2, amended: the text of the counterexample with \<open>chunkSize = 4\<close> and
  \<open>overlap = 2\<close>; the five windows, cut back by two characters, give "ab", "cd", "ef",
  "gh", "i".
\<close>

theorem splitTextIntoChunks_windows_reconstruct_witness:
  "(0::int) \<le> 2 \<and> 2 * (2::int) \<le> 4 \<and> (0::int) < 4
   \<and> splitWindows (js ''abcdefghi'') 4 2 = Some [(0, 4), (2, 6), (4, 8), (6, 10), (8, 12)]
   \<and> map (\<lambda>(s, e). slice (js ''abcdefghi'') s (e - 2)) [(0, 4), (2, 6), (4, 8), (6, 10), (8, 12)]
       = [js ''ab'', js ''cd'', js ''ef'', js ''gh'', js ''i'']
   \<and> concat (map (\<lambda>(s, e). slice (js ''abcdefghi'') s (e - 2))
         [(0, 4), (2, 6), (4, 8), (6, 10), (8, 12)]) = js ''abcdefghi''"
  using splitTextIntoChunks_windows_reconstruct [of 2 4 "js ''abcdefghi''"]
  by (simp add: js_def splitWindows_def windowLoop.simps chunkEnd_def lastIndexOf_def
      slice_def Let_def)

section \<open>Properties of generateEmbeddings\<close>


lemma generateEmbeddingsLoop_spec:
  "\<exists>es. embeddings (generateEmbeddingsLoop env ts st) = embeddings st @ es
      \<and> length es = length ts
      \<and> sent (generateEmbeddingsLoop env ts st) = sent st @ filter isValidText ts
      \<and> (\<forall>i < length ts. embeddedAs env (length (sent st) + callIndex ts i) (ts ! i) (es ! i))"
proof (induction ts arbitrary: st)
  case Nil
  then show ?case by simp
next
  case (Cons t ts)
  have step: "\<exists>es. embeddings (generateEmbeddingsLoop env ts st') = embeddings st @ es
      \<and> length es = length (t # ts)
      \<and> sent (generateEmbeddingsLoop env ts st') = sent st @ filter isValidText (t # ts)
      \<and> (\<forall>i < length (t # ts).
            embeddedAs env (length (sent st) + callIndex (t # ts) i) ((t # ts) ! i) (es ! i))"
    if e: "embeddings st' = embeddings st @ [e0]"
      and s: "sent st' = sent st @ (if isValidText t then [t] else [])"
      and h: "embeddedAs env (length (sent st)) t e0"
    for st' e0
  proof -
    from Cons.IH [of st'] obtain es where
      1: "embeddings (generateEmbeddingsLoop env ts st') = embeddings st' @ es"
      and 2: "length es = length ts"
      and 3: "sent (generateEmbeddingsLoop env ts st') = sent st' @ filter isValidText ts"
      and 4: "\<forall>i < length ts. embeddedAs env (length (sent st') + callIndex ts i) (ts ! i) (es ! i)"
      by blast
    have "embeddedAs env (length (sent st) + callIndex (t # ts) i) ((t # ts) ! i) ((e0 # es) ! i)"
      if "i < length (t # ts)" for i
    proof (cases i)
      case 0
      with h show ?thesis by (simp add: callIndex_def)
    next
      case (Suc j)
      with that have "j < length ts" by simp
      with 4 have "embeddedAs env (length (sent st') + callIndex ts j) (ts ! j) (es ! j)"
        by blast
      moreover have "length (sent st') + callIndex ts j
                     = length (sent st) + callIndex (t # ts) (Suc j)"
        using s by (simp add: callIndex_def)
      ultimately show ?thesis using Suc by simp
    qed
    with 1 2 3 e s show ?thesis
      by (intro exI [of _ "e0 # es"]) simp
  qed
  show ?case
  proof (cases "isValidText t")
    case False
    have "embeddedAs env (length (sent st)) t (dummyEmbedding env (drawn st))"
      using False by (auto simp: embeddedAs_def)
    from step [OF _ _ this,
        of "st\<lparr>embeddings := embeddings st @ [dummyEmbedding env (drawn st)],
               drawn := drawn st + 768\<rparr>"]
    show ?thesis using False by simp
  next
    case True
    show ?thesis
    proof (cases "\<exists>v. embedContent env (length (sent st)) t = EmbedResponse (Some v)")
      case True
      then obtain v where v: "embedContent env (length (sent st)) t = EmbedResponse (Some v)"
        by blast
      then have "embeddedAs env (length (sent st)) t v"
        using \<open>isValidText t\<close> by (simp add: embeddedAs_def)
      from step [OF _ _ this,
          of "st\<lparr>embeddings := embeddings st @ [v], sent := sent st @ [t]\<rparr>"]
      show ?thesis using \<open>isValidText t\<close> v by simp
    next
      case False
      then have "embeddedAs env (length (sent st)) t (dummyEmbedding env (drawn st))"
        by (auto simp: embeddedAs_def)
      from step [OF _ _ this,
          of "st\<lparr>embeddings := embeddings st @ [dummyEmbedding env (drawn st)],
                 sent := sent st @ [t], drawn := drawn st + 768\<rparr>"]
      show ?thesis using \<open>isValidText t\<close> False
        by (cases "embedContent env (length (sent st)) t")
           (auto split: option.splits)
    qed
  qed
qed

lemma generateEmbeddings_spec:
  "length (embeddings (generateEmbeddings env ts)) = length ts
   \<and> sent (generateEmbeddings env ts) = filter isValidText ts
   \<and> (\<forall>i < length ts.
         embeddedAs env (callIndex ts i) (ts ! i) (embeddings (generateEmbeddings env ts) ! i))"
  using generateEmbeddingsLoop_spec [of env ts "\<lparr>embeddings = [], sent = [], drawn = 0\<rparr>"]
  by (auto simp: generateEmbeddings_def)




section \<open>Properties of the upload route\<close>

lemma length_makeVectors [simp]:
  "length (makeVectors env fl ext validChunks embs) = length validChunks"
  by (simp add: makeVectors_def)

lemma content_makeVectors:
  "map (\<lambda>v. meta_content (vec_metadata v)) (makeVectors env fl ext validChunks embs) = validChunks"
  by (simp add: makeVectors_def comp_def case_prod_unfold map_snd_enumerate)

lemma makeVectors_nth:
  "i < length validChunks \<Longrightarrow>
     vec_id (makeVectors env fl ext validChunks embs ! i) = vectorId env (file_name fl) i
     \<and> meta_filename (vec_metadata (makeVectors env fl ext validChunks embs ! i)) = file_name fl
     \<and> meta_content (vec_metadata (makeVectors env fl ext validChunks embs ! i)) = validChunks ! i"
  by (simp add: makeVectors_def nth_enumerate_eq)

lemma makeVectors_ids:
  "map vec_id (makeVectors env fl ext validChunks embs)
     = map (vectorId env (file_name fl)) [0 ..< length validChunks]"
  by (rule nth_equalityI) (simp_all add: makeVectors_nth)

lemma filename_makeVectors:
  "v \<in> set (makeVectors env fl ext validChunks embs) \<Longrightarrow>
     meta_filename (vec_metadata v) = file_name fl"
  by (auto simp: makeVectors_def)

text \<open>What a successful upload has done, and when an upload succeeds.\<close>

lemma uploadDocument_success:
  assumes "uploadDocument env index request = Some (UploadSuccess r, index')"
  shows "\<exists>fl extracted chunks.
           request = Form (Some fl)
           \<and> extractTextFromFile env fl = Inr extracted
           \<and> splitTextIntoChunks extracted 1000 200 = Some chunks
           \<and> filter isValidText (take 30 chunks) \<noteq> []
           \<and> r = \<lparr>documentId = file_name fl,
                   chunksCreated = length (filter isValidText (take 30 chunks)),
                   vectorsUploaded = length (filter isValidText (take 30 chunks)),
                   extractedTextLength = length extracted\<rparr>
           \<and> index' = upsert (makeVectors env fl (js ''.txt'')
                                (filter isValidText (take 30 chunks))
                                (embeddings (generateEmbeddings env
                                   (filter isValidText (take 30 chunks))))) index"
  using assms
  by (auto simp: uploadDocument_def Let_def
      split: uploadRequest.splits option.splits if_splits sum.splits)

lemma uploadDocument_succeeds:
  assumes "file_size fl \<le> 5 * 1024 * 1024"
    and "toLowerCase env (lastSegment (file_name fl)) = js ''txt''"
    and "extractTextFromFile env fl = Inr extracted"
    and "trim extracted \<noteq> []" and "50 \<le> length extracted" and "isValidText extracted"
    and "splitTextIntoChunks extracted 1000 200 = Some chunks"
    and "filter isValidText (take 30 chunks) \<noteq> []"
    and "describeIndex env" and "\<not> upsertRaises env"
  shows "uploadDocument env index (Form (Some fl))
         = Some (UploadSuccess \<lparr>documentId = file_name fl,
                   chunksCreated = length (filter isValidText (take 30 chunks)),
                   vectorsUploaded = length (filter isValidText (take 30 chunks)),
                   extractedTextLength = length extracted\<rparr>,
                 upsert (makeVectors env fl (js ''.txt'') (filter isValidText (take 30 chunks))
                          (embeddings (generateEmbeddings env
                             (filter isValidText (take 30 chunks))))) index)"
proof -
  have c: "chunks \<noteq> []" using assms(8) by auto
  have e: "js ''.'' @ js ''txt'' = js ''.txt''" by (simp add: js_def)
  show ?thesis
    using assms c generateEmbeddings_spec [of env "filter isValidText (take 30 chunks)"]
    by (simp add: uploadDocument_def Let_def e)
qed

subsection \<open>The example file\<close>

lemma demo_decode: "decodeUtf8 demoServices (replicate n 0x61) = Some (replicate n 0x61)"
  by (simp add: demoServices_def)

lemma demo_facts:
  "toLowerCase demoServices (js ''txt'') = js ''txt''" "describeIndex demoServices"
  "\<not> upsertRaises demoServices" "\<not> queryRaises demoServices"
  by (simp_all add: demoServices_def asciiLower_def js_def)

lemma extract_plain:
  assumes "decodeUtf8 env (replicate n 0x61) = Some (replicate n 0x61)" and "10 \<le> n"
  shows "extractTextFromFile env (plainFile n) = Inr (replicate n 0x61)"
  using assms
  by (simp add: extractTextFromFile_def plainFile_def cleanText_plain isValidText_replicate
      a_facts js_def endsWith_def)

lemma upload_plain:
  assumes "decodeUtf8 env (replicate n 0x61) = Some (replicate n 0x61)"
    and "toLowerCase env (js ''txt'') = js ''txt''"
    and "describeIndex env" and "\<not> upsertRaises env"
    and "splitTextIntoChunks (replicate n 0x61) 1000 200 = Some chunks"
    and "filter isValidText (take 30 chunks) = validChunks"
    and "validChunks \<noteq> []" and "50 \<le> n" and "n \<le> 5 * 1024 * 1024"
  shows "uploadDocument env index (Form (Some (plainFile n)))
           = Some (UploadSuccess \<lparr>documentId = js ''lease.txt'',
                     chunksCreated = length validChunks,
                     vectorsUploaded = length validChunks,
                     extractedTextLength = n\<rparr>,
                   upsert (makeVectors env (plainFile n) (js ''.txt'') validChunks
                            (embeddings (generateEmbeddings env validChunks))) index)"
proof -
  have e: "extractTextFromFile env (plainFile n) = Inr (replicate n 0x61)"
    using assms(1,8) by (intro extract_plain) auto
  have l: "lastSegment (js ''lease.txt'') = js ''txt''"
    by (simp add: lastSegment_def js_def)
  have "uploadDocument env index (Form (Some (plainFile n)))
         = Some (UploadSuccess \<lparr>documentId = file_name (plainFile n),
                   chunksCreated = length (filter isValidText (take 30 chunks)),
                   vectorsUploaded = length (filter isValidText (take 30 chunks)),
                   extractedTextLength = length (replicate n (0x61 :: jschar))\<rparr>,
                 upsert (makeVectors env (plainFile n) (js ''.txt'')
                           (filter isValidText (take 30 chunks))
                           (embeddings (generateEmbeddings env
                              (filter isValidText (take 30 chunks))))) index)"
    using assms e
    by (intro uploadDocument_succeeds)
       (simp_all add: l file_size_def plainFile_def isValidText_replicate a_facts trim_replicate_a)
  then show ?thesis unfolding assms(6) by (simp add: plainFile_def)
qed

text \<open>
  C10: in every successful upload response \<open>chunksCreated\<close> equals \<open>vectorsUploaded\<close>,
  and both are the number of chunks that pass \<open>isValidText\<close> among the first 30 chunks of
  the splitter (run with the defaults on the extracted text); the chunks that fail are in
  neither the texts sent to the embedding model nor the records stored; the number is
  between 1 and 30.
\<close>

theorem upload_success_counts:
  assumes "uploadDocument env index request = Some (UploadSuccess r, index')"
  shows "\<exists>fl extracted chunks vectors.
           request = Form (Some fl)
           \<and> extractTextFromFile env fl = Inr extracted
           \<and> splitTextIntoChunks extracted 1000 200 = Some chunks
           \<and> chunksCreated r = length (filter isValidText (take 30 chunks))
           \<and> vectorsUploaded r = chunksCreated r
           \<and> 1 \<le> chunksCreated r \<and> chunksCreated r \<le> 30
           \<and> sent (generateEmbeddings env (filter isValidText (take 30 chunks)))
               = filter isValidText (take 30 chunks)
           \<and> index' = upsert vectors index
           \<and> map (\<lambda>v. meta_content (vec_metadata v)) vectors
               = filter isValidText (take 30 chunks)"
proof -
  from uploadDocument_success [OF assms] obtain fl extracted chunks where
    f: "request = Form (Some fl)" "extractTextFromFile env fl = Inr extracted"
       "splitTextIntoChunks extracted 1000 200 = Some chunks"
    and n: "filter isValidText (take 30 chunks) \<noteq> []"
    and r: "r = \<lparr>documentId = file_name fl,
                   chunksCreated = length (filter isValidText (take 30 chunks)),
                   vectorsUploaded = length (filter isValidText (take 30 chunks)),
                   extractedTextLength = length extracted\<rparr>"
    and i: "index' = upsert (makeVectors env fl (js ''.txt'')
                               (filter isValidText (take 30 chunks))
                               (embeddings (generateEmbeddings env
                                  (filter isValidText (take 30 chunks))))) index"
    by blast
  let ?vc = "filter isValidText (take 30 chunks)"
  have "length ?vc \<le> length (take 30 chunks)" by (rule length_filter_le)
  then have le: "length ?vc \<le> 30" by simp
  from n have ge: "1 \<le> length ?vc" by (cases ?vc) auto
  have s: "sent (generateEmbeddings env ?vc) = ?vc"
    using generateEmbeddings_spec [of env ?vc] by simp
  from f r i le ge s content_makeVectors show ?thesis
    by (intro exI [of _ fl] exI [of _ extracted] exI [of _ chunks]
        exI [of _ "makeVectors env fl (js ''.txt'') ?vc (embeddings (generateEmbeddings env ?vc))"])
       simp
qed

text \<open>
  Witness of C10: the file of 805 letters "a" with the example services. The splitter
  returns two chunks, the whole text and its last five letters; the second fails
  \<open>isValidText\<close>; the response reports one chunk and the index holds one record.
\<close>

theorem upload_success_counts_witness:
  "reportedChunksCreated (uploadDocument demoServices [] (Form (Some (plainFile 805)))) = Some 1
   \<and> extractTextFromFile demoServices (plainFile 805) = Inr (replicate 805 0x61)
   \<and> splitTextIntoChunks (replicate 805 0x61) 1000 200
       = Some [replicate 805 0x61, replicate 5 0x61]
   \<and> filter isValidText (take 30 [replicate 805 0x61, replicate 5 0x61]) = [replicate 805 0x61]
   \<and> length (indexAfter (uploadDocument demoServices [] (Form (Some (plainFile 805))))) = 1"
proof -
  have e: "extractTextFromFile demoServices (plainFile 805) = Inr (replicate 805 0x61)"
    using demo_decode by (intro extract_plain) auto
  note u = upload_plain [of demoServices 805 _ _ "[]",
      OF demo_decode demo_facts(1) demo_facts(2) demo_facts(3) split805 valid805, simplified]
  from upload_success_counts [OF u] obtain fl extracted chunks
    and vectors :: "nat vectorRecord list" where
    f: "Form (Some (plainFile 805)) = Form (Some fl)"
    and x: "extractTextFromFile demoServices fl = Inr extracted"
    and c: "splitTextIntoChunks extracted 1000 200 = Some chunks"
    and i: "upsert (makeVectors demoServices (plainFile 805) (js ''.txt'') [replicate 805 0x61]
              (embeddings (generateEmbeddings demoServices [replicate 805 0x61]))) []
            = upsert vectors []"
    and m: "map (\<lambda>v. meta_content (vec_metadata v)) vectors = filter isValidText (take 30 chunks)"
    by blast
  from f have "fl = plainFile 805" by simp
  with x e have "extracted = replicate 805 0x61" by simp
  with c split805 have "chunks = [replicate 805 0x61, replicate 5 0x61]" by simp
  with m have "map (\<lambda>v. meta_content (vec_metadata v)) vectors = [replicate 805 0x61]"
    by (simp only: valid805)
  then obtain v where "vectors = [v]" by (cases vectors) auto
  then have "length (upsert vectors []) = 1" by (simp add: upsert_def)
  with i u e split805 valid805 show ?thesis
    by (simp add: reportedChunksCreated_def indexAfter_def)
qed

section \<open>Properties of the analysis route\<close>

text \<open>
  C7: when the request has both fields truthy, the query is made and does not raise, and
  it returns no match for the file name, the analysis route answers with the failure
  "Document not found in database", status 404, and invokes no model. The fields are any
  JSON values; for two strings the first four hypotheses say that neither is empty.
\<close>

theorem analysis_not_found:
  assumes "truthy (Some analysisType)" and "truthy (Some fileName)"
    and "templateString analysisType = Some typeText"
    and "templateString fileName = Some nameText"
    and "\<not> queryRaises env"
    and "queryMatches env index (typeText @ js '' analysis of '' @ nameText) fileName = []"
  shows "analyzeDocument env index (Json (Some analysisType) (Some fileName))
           = (AnalysisFailure DocumentNotFound, [])
         \<and> analysisStatus DocumentNotFound = 404"
  using assms by (simp add: analyzeDocument_def Let_def)

text \<open>
  Witness of C7: the example index holds a record of "lease.txt" only; an analysis of
  "other.txt" finds no match, and so does an analysis whose \<open>fileName\<close> is the number 5.
\<close>

theorem analysis_not_found_witness:
  "truthy (Some (JsonString (js ''risks''))) \<and> truthy (Some (JsonString (js ''other.txt'')))
   \<and> \<not> queryRaises demoServices
   \<and> queryMatches demoServices demoIndex (js ''risks analysis of other.txt'')
        (JsonString (js ''other.txt'')) = []
   \<and> analyzeDocument demoServices demoIndex
        (Json (Some (JsonString (js ''risks''))) (Some (JsonString (js ''other.txt''))))
       = (AnalysisFailure DocumentNotFound, [])
   \<and> truthy (Some (JsonOther True (Some (js ''5''))))
   \<and> queryMatches demoServices demoIndex (js ''risks analysis of 5'')
        (JsonOther True (Some (js ''5''))) = []
   \<and> analyzeDocument demoServices demoIndex
        (Json (Some (JsonString (js ''risks''))) (Some (JsonOther True (Some (js ''5'')))))
       = (AnalysisFailure DocumentNotFound, [])"
  using analysis_not_found [where analysisType = "JsonString (js ''risks'')"
      and fileName = "JsonString (js ''other.txt'')" and typeText = "js ''risks''"
      and nameText = "js ''other.txt''" and env = demoServices and index = demoIndex]
    analysis_not_found [where analysisType = "JsonString (js ''risks'')"
      and fileName = "JsonOther True (Some (js ''5''))" and typeText = "js ''risks''"
      and nameText = "js ''5''" and env = demoServices and index = demoIndex]
  by (simp add: js_def truthy_def templateString_def demoServices_def demoIndex_def
      queryMatches_def queryIndex_def)

subsection \<open>The text of the basic extraction\<close>

lemma basicAnalysis_text:
  "basicAnalysis env (JsonString type) nameText n content
     = Some (js ''Document Analysis for '' @ nameText
         @ js ''\<newline>          \<newline>Analysis Type: ''
         @ (if type = js ''summarize'' then js ''Document Summary''
            else if type = js ''detailed'' then js ''Detailed Analysis''
            else if type = js ''risks'' then js ''Risk Assessment''
            else if type = js ''key-terms'' then js ''Key Terms & Clauses''
            else if type = js ''plain-english'' then js ''Plain English Translation''
            else toUpperCase env (take 1 type) @ drop 1 type)
         @ js ''\<newline>\<newline>Content Summary:\<newline>The document contains '' @ showNat n
         @ js '' sections of content. \<newline>\<newline>Key Content Preview:\<newline>'' @ take 500 content
         @ js ''...\<newline>\<newline>Note: AI analysis is currently unavailable. This is a basic content extraction. Please try again later for full AI-powered analysis.'')"
  by (simp add: basicAnalysis_def formatAnalysisType_def)

lemma basicAnalysis_not_string: "basicAnalysis env (JsonOther t s) nameText n content = None"
  by (simp add: basicAnalysis_def formatAnalysisType_def)

lemma extraction_text:
  fixes nm lb ct ex :: jsstring
  defines "analysis \<equiv> js ''Document Analysis for '' @ nm
         @ js ''\<newline>          \<newline>Analysis Type: '' @ lb
         @ js ''\<newline>\<newline>Content Summary:\<newline>The document contains '' @ ct
         @ js '' sections of content. \<newline>\<newline>Key Content Preview:\<newline>'' @ ex
         @ js ''...\<newline>\<newline>Note: AI analysis is currently unavailable. This is a basic content extraction. Please try again later for full AI-powered analysis.''"
  shows "analysis \<noteq> []"
    and "sublist (js ''Analysis Type: '' @ lb @ js ''\<newline>'') analysis"
    and "sublist (js ''Key Content Preview:\<newline>'' @ ex @ js ''...\<newline>'') analysis"
    and "length analysis = length nm + length lb + length ct + length ex + 272"
proof -
  show "analysis \<noteq> []" by (simp add: analysis_def js_def)
  have "analysis = (js ''Document Analysis for '' @ nm @ js ''\<newline>          \<newline>'')
          @ (js ''Analysis Type: '' @ lb @ js ''\<newline>'')
          @ (js ''\<newline>Content Summary:\<newline>The document contains '' @ ct
             @ js '' sections of content. \<newline>\<newline>Key Content Preview:\<newline>'' @ ex
             @ js ''...\<newline>\<newline>Note: AI analysis is currently unavailable. This is a basic content extraction. Please try again later for full AI-powered analysis.'')"
    by (simp add: analysis_def js_def)
  then show "sublist (js ''Analysis Type: '' @ lb @ js ''\<newline>'') analysis"
    by (metis sublist_appendI)
  have "analysis = (js ''Document Analysis for '' @ nm
             @ js ''\<newline>          \<newline>Analysis Type: '' @ lb
             @ js ''\<newline>\<newline>Content Summary:\<newline>The document contains '' @ ct
             @ js '' sections of content. \<newline>\<newline>'')
          @ (js ''Key Content Preview:\<newline>'' @ ex @ js ''...\<newline>'')
          @ js ''\<newline>Note: AI analysis is currently unavailable. This is a basic content extraction. Please try again later for full AI-powered analysis.''"
    by (simp add: analysis_def js_def)
  then show "sublist (js ''Key Content Preview:\<newline>'' @ ex @ js ''...\<newline>'') analysis"
    by (metis sublist_appendI)
  show "length analysis = length nm + length lb + length ct + length ex + 272"
    by (simp add: analysis_def js_def)
qed

subsection \<open>The cascade of the models\<close>

text \<open>
  C5 (the claim: whenever the primary model raises, the secondary model is invoked with
  the identical prompt before any basic-extraction text is produced; and whenever both
  models raise, the endpoint still returns a success result with the basic extraction
  and a warning). The second half fails for a request whose \<open>analysisType\<close> is truthy
  and not a string: the request \<open>{"analysisType": 5, "fileName": "lease.txt"}\<close> on the
  example index, with the example services, whose generative models both raise. Both
  models are invoked with the same prompt; then \<open>formatAnalysisType(5)\<close> throws inside the
  last \<open>catch\<close>, no text is built, and the response is the failure of the outer \<open>catch\<close>,
  with status 500.
\<close>

theorem analysis_fallback_not_string_counterexample:
  "truthy (Some (JsonOther True (Some (js ''5''))))
   \<and> truthy (Some (JsonString (js ''lease.txt'')))
   \<and> generateContent demoServices Gemini15Flash
        (js ''Summarize:\<newline>\<newline>Document Content:\<newline>The tenant shall pay rent.'') = None
   \<and> generateContent demoServices Gemini15Pro
        (js ''Summarize:\<newline>\<newline>Document Content:\<newline>The tenant shall pay rent.'') = None
   \<and> analyzeDocument demoServices demoIndex
        (Json (Some (JsonOther True (Some (js ''5'')))) (Some (JsonString (js ''lease.txt''))))
       = (AnalysisFailure AnalysisFailed,
          [ModelInvoked Gemini15Flash (js ''Summarize:\<newline>\<newline>Document Content:\<newline>The tenant shall pay rent.''),
           ModelInvoked Gemini15Pro (js ''Summarize:\<newline>\<newline>Document Content:\<newline>The tenant shall pay rent.'')])
   \<and> analysisStatus AnalysisFailed = 500"
proof -
  have m: "queryMatches demoServices demoIndex (js ''5'' @ js '' analysis of '' @ js ''lease.txt'')
             (JsonString (js ''lease.txt'')) = demoIndex"
    by (simp add: js_def demoServices_def demoIndex_def queryMatches_def queryIndex_def)
  have c: "relevantContent demoIndex = js ''The tenant shall pay rent.''"
    by (simp add: js_def demoIndex_def relevantContent_def)
  have p: "groundedPrompt demoServices (js ''5'') (js ''The tenant shall pay rent.'')
       = js ''Summarize:\<newline>\<newline>Document Content:\<newline>The tenant shall pay rent.''"
    by (simp add: js_def demoServices_def groundedPrompt_def systemPrompt_def summarizePrompt_def)
  have g: "generateContent demoServices m p = None" for m p
    by (simp add: demoServices_def)
  have l: "demoIndex \<noteq> []" by (simp add: demoIndex_def)
  have n: "js ''The tenant shall pay rent.'' \<noteq> []" "js ''lease.txt'' \<noteq> []"
    by (simp_all add: js_def)
  show ?thesis
    using m c p g l n demo_facts(4)
    by (simp add: analyzeDocument_def truthy_def templateString_def Let_def
        basicAnalysis_not_string)
qed

text \<open>
  C5, amended: in the analysis route, when the handler reaches the models (both fields
  truthy, the query returns matches, their content is not empty) and the primary model
  raises on the prompt, the secondary model is invoked next and with the same prompt,
  before any basic extraction. When the secondary model answers, its text is the
  analysis, the response carries the note that the fallback model was used, and no basic
  extraction is built. When the secondary model raises too and \<open>analysisType\<close> is a
  string, the response is a success whose analysis text is the basic extraction, built
  after both invocations, and which carries the warning. The text is given in full: it
  is not empty; after "Analysis Type: " it has the label of the analysis type, which is
  "Document Summary" for "summarize", "Detailed Analysis" for "detailed", "Risk
  Assessment" for "risks", "Key Terms & Clauses" for "key-terms", "Plain English
  Translation" for "plain-english", and for any other string that string with its first
  character in upper case; after "Key Content Preview:" it has the first 500 characters
  of the retrieved content (all of it when it is shorter), followed by "..."; nothing
  else in it is taken from the content, so that its length is the length of the file
  name, of the label and of the number of matches, plus at most 500, plus 272.
\<close>

theorem analysis_fallback_cascade:
  assumes "truthy (Some analysisType)" and "truthy (Some fileName)"
    and "templateString analysisType = Some typeText"
    and "templateString fileName = Some nameText"
    and "\<not> queryRaises env"
    and "matches = queryMatches env index (typeText @ js '' analysis of '' @ nameText) fileName"
    and "matches \<noteq> []"
    and "content = relevantContent matches" and "content \<noteq> []"
    and "prompt = groundedPrompt env typeText content"
    and "generateContent env Gemini15Flash prompt = None"
  shows "take 2 (snd (analyzeDocument env index (Json (Some analysisType) (Some fileName))))
           = [ModelInvoked Gemini15Flash prompt, ModelInvoked Gemini15Pro prompt]
    \<and> (\<forall>analysis. generateContent env Gemini15Pro prompt = Some analysis \<longrightarrow>
         analyzeDocument env index (Json (Some analysisType) (Some fileName))
           = (AnalysisSuccess
                \<lparr>r_analysis = analysis, r_analysisType = analysisType, r_fileName = fileName,
                 r_chunksAnalyzed = length matches,
                 r_note = Some (js ''Used fallback model due to primary model unavailability''),
                 r_warning = None\<rparr>,
              [ModelInvoked Gemini15Flash prompt, ModelInvoked Gemini15Pro prompt]))
    \<and> (\<forall>type label analysis.
         generateContent env Gemini15Pro prompt = None
         \<and> analysisType = JsonString type
         \<and> label = (if type = js ''summarize'' then js ''Document Summary''
                    else if type = js ''detailed'' then js ''Detailed Analysis''
                    else if type = js ''risks'' then js ''Risk Assessment''
                    else if type = js ''key-terms'' then js ''Key Terms & Clauses''
                    else if type = js ''plain-english'' then js ''Plain English Translation''
                    else toUpperCase env (take 1 type) @ drop 1 type)
         \<and> analysis = js ''Document Analysis for '' @ nameText
              @ js ''\<newline>          \<newline>Analysis Type: '' @ label
              @ js ''\<newline>\<newline>Content Summary:\<newline>The document contains '' @ showNat (length matches)
              @ js '' sections of content. \<newline>\<newline>Key Content Preview:\<newline>'' @ take 500 content
              @ js ''...\<newline>\<newline>Note: AI analysis is currently unavailable. This is a basic content extraction. Please try again later for full AI-powered analysis.''
         \<longrightarrow>
         analyzeDocument env index (Json (Some analysisType) (Some fileName))
           = (AnalysisSuccess
                \<lparr>r_analysis = analysis, r_analysisType = analysisType, r_fileName = fileName,
                 r_chunksAnalyzed = length matches, r_note = None,
                 r_warning = Some (js ''AI analysis unavailable - showing basic content extraction'')\<rparr>,
              [ModelInvoked Gemini15Flash prompt, ModelInvoked Gemini15Pro prompt, BasicExtraction])
         \<and> analysis \<noteq> []
         \<and> sublist (js ''Analysis Type: '' @ label @ js ''\<newline>'') analysis
         \<and> sublist (js ''Key Content Preview:\<newline>'' @ take 500 content @ js ''...\<newline>'') analysis
         \<and> length analysis
            = length nameText + length label + length (showNat (length matches))
              + min 500 (length content) + 272)"
proof (intro conjI allI impI)
  show "take 2 (snd (analyzeDocument env index (Json (Some analysisType) (Some fileName))))
           = [ModelInvoked Gemini15Flash prompt, ModelInvoked Gemini15Pro prompt]"
    using assms by (simp add: analyzeDocument_def Let_def split: option.splits)
next
  fix analysis assume "generateContent env Gemini15Pro prompt = Some analysis"
  with assms show "analyzeDocument env index (Json (Some analysisType) (Some fileName))
           = (AnalysisSuccess
                \<lparr>r_analysis = analysis, r_analysisType = analysisType, r_fileName = fileName,
                 r_chunksAnalyzed = length matches,
                 r_note = Some (js ''Used fallback model due to primary model unavailability''),
                 r_warning = None\<rparr>,
              [ModelInvoked Gemini15Flash prompt, ModelInvoked Gemini15Pro prompt])"
    by (simp add: analyzeDocument_def Let_def)
next
  fix tp lb analysis
  assume h: "generateContent env Gemini15Pro prompt = None
         \<and> analysisType = JsonString tp
         \<and> lb = (if tp = js ''summarize'' then js ''Document Summary''
                    else if tp = js ''detailed'' then js ''Detailed Analysis''
                    else if tp = js ''risks'' then js ''Risk Assessment''
                    else if tp = js ''key-terms'' then js ''Key Terms & Clauses''
                    else if tp = js ''plain-english'' then js ''Plain English Translation''
                    else toUpperCase env (take 1 tp) @ drop 1 tp)
         \<and> analysis = js ''Document Analysis for '' @ nameText
              @ js ''\<newline>          \<newline>Analysis Type: '' @ lb
              @ js ''\<newline>\<newline>Content Summary:\<newline>The document contains '' @ showNat (length matches)
              @ js '' sections of content. \<newline>\<newline>Key Content Preview:\<newline>'' @ take 500 content
              @ js ''...\<newline>\<newline>Note: AI analysis is currently unavailable. This is a basic content extraction. Please try again later for full AI-powered analysis.''"
  then have b: "basicAnalysis env analysisType nameText (length matches) content = Some analysis"
    by (simp only: basicAnalysis_text)
  from h have a: "analysis = js ''Document Analysis for '' @ nameText
              @ js ''\<newline>          \<newline>Analysis Type: '' @ lb
              @ js ''\<newline>\<newline>Content Summary:\<newline>The document contains '' @ showNat (length matches)
              @ js '' sections of content. \<newline>\<newline>Key Content Preview:\<newline>'' @ take 500 content
              @ js ''...\<newline>\<newline>Note: AI analysis is currently unavailable. This is a basic content extraction. Please try again later for full AI-powered analysis.''"
    by simp
  from h assms b
  show "analyzeDocument env index (Json (Some analysisType) (Some fileName))
           = (AnalysisSuccess
                \<lparr>r_analysis = analysis, r_analysisType = analysisType, r_fileName = fileName,
                 r_chunksAnalyzed = length matches, r_note = None,
                 r_warning = Some (js ''AI analysis unavailable - showing basic content extraction'')\<rparr>,
              [ModelInvoked Gemini15Flash prompt, ModelInvoked Gemini15Pro prompt, BasicExtraction])"
    by (simp add: analyzeDocument_def Let_def del: append_assoc)
  show "analysis \<noteq> []" unfolding a by (rule extraction_text(1))
  show "sublist (js ''Analysis Type: '' @ lb @ js ''\<newline>'') analysis"
    unfolding a by (rule extraction_text(2))
  show "sublist (js ''Key Content Preview:\<newline>'' @ take 500 content @ js ''...\<newline>'') analysis"
    unfolding a by (rule extraction_text(3))
  show "length analysis
            = length nameText + length lb + length (showNat (length matches))
              + min 500 (length content) + 272"
    unfolding a by (simp only: extraction_text(4) length_take min.commute)
qed

text \<open>
  Witness of C5, amended: two analyses of "lease.txt" on the example index, with the
  example services, whose generative models both raise. For the type "risks" the
  response is the basic extraction with the label "Risk Assessment", for the type
  "timeline" with the label "Timeline"; the excerpt is the whole content (26
  characters).
\<close>

theorem analysis_fallback_cascade_witness:
  "queryMatches demoServices demoIndex (js ''risks analysis of lease.txt'')
      (JsonString (js ''lease.txt'')) = demoIndex
   \<and> relevantContent demoIndex = js ''The tenant shall pay rent.''
   \<and> groundedPrompt demoServices (js ''risks'') (js ''The tenant shall pay rent.'')
       = js ''Summarize:\<newline>\<newline>Document Content:\<newline>The tenant shall pay rent.''
   \<and> generateContent demoServices Gemini15Flash
        (js ''Summarize:\<newline>\<newline>Document Content:\<newline>The tenant shall pay rent.'') = None
   \<and> generateContent demoServices Gemini15Pro
        (js ''Summarize:\<newline>\<newline>Document Content:\<newline>The tenant shall pay rent.'') = None
   \<and> analyzeDocument demoServices demoIndex
        (Json (Some (JsonString (js ''risks''))) (Some (JsonString (js ''lease.txt''))))
       = (AnalysisSuccess
            \<lparr>r_analysis = js ''Document Analysis for lease.txt\<newline>          \<newline>Analysis Type: Risk Assessment\<newline>\<newline>Content Summary:\<newline>The document contains 1 sections of content. \<newline>\<newline>Key Content Preview:\<newline>The tenant shall pay rent....\<newline>\<newline>Note: AI analysis is currently unavailable. This is a basic content extraction. Please try again later for full AI-powered analysis.'',
             r_analysisType = JsonString (js ''risks''), r_fileName = JsonString (js ''lease.txt''),
             r_chunksAnalyzed = 1, r_note = None,
             r_warning = Some (js ''AI analysis unavailable - showing basic content extraction'')\<rparr>,
          [ModelInvoked Gemini15Flash (js ''Summarize:\<newline>\<newline>Document Content:\<newline>The tenant shall pay rent.''),
           ModelInvoked Gemini15Pro (js ''Summarize:\<newline>\<newline>Document Content:\<newline>The tenant shall pay rent.''),
           BasicExtraction])
   \<and> analyzeDocument demoServices demoIndex
        (Json (Some (JsonString (js ''timeline''))) (Some (JsonString (js ''lease.txt''))))
       = (AnalysisSuccess
            \<lparr>r_analysis = js ''Document Analysis for lease.txt\<newline>          \<newline>Analysis Type: Timeline\<newline>\<newline>Content Summary:\<newline>The document contains 1 sections of content. \<newline>\<newline>Key Content Preview:\<newline>The tenant shall pay rent....\<newline>\<newline>Note: AI analysis is currently unavailable. This is a basic content extraction. Please try again later for full AI-powered analysis.'',
             r_analysisType = JsonString (js ''timeline''), r_fileName = JsonString (js ''lease.txt''),
             r_chunksAnalyzed = 1, r_note = None,
             r_warning = Some (js ''AI analysis unavailable - showing basic content extraction'')\<rparr>,
          [ModelInvoked Gemini15Flash (js ''Summarize:\<newline>\<newline>Document Content:\<newline>The tenant shall pay rent.''),
           ModelInvoked Gemini15Pro (js ''Summarize:\<newline>\<newline>Document Content:\<newline>The tenant shall pay rent.''),
           BasicExtraction])"
proof -
  let ?lease = "JsonString (js ''lease.txt'')"
  let ?prompt = "js ''Summarize:\<newline>\<newline>Document Content:\<newline>The tenant shall pay rent.''"
  have m: "queryMatches demoServices demoIndex (a @ js '' analysis of '' @ js ''lease.txt'') ?lease
           = demoIndex" for a
    by (simp add: js_def demoServices_def demoIndex_def queryMatches_def queryIndex_def)
  have m': "queryMatches demoServices demoIndex (js ''risks analysis of lease.txt'') ?lease
           = demoIndex"
    using m [of "js ''risks''"] by (simp add: js_def)
  have c: "relevantContent demoIndex = js ''The tenant shall pay rent.''"
    by (simp add: js_def demoIndex_def relevantContent_def)
  have p: "groundedPrompt demoServices a (js ''The tenant shall pay rent.'') = ?prompt" for a
    by (simp add: js_def demoServices_def groundedPrompt_def systemPrompt_def summarizePrompt_def)
  have g: "generateContent demoServices md pr = None" for md pr
    by (simp add: demoServices_def)
  have l: "length demoIndex = 1" by (simp add: demoIndex_def)
  have h1: "truthy (Some (JsonString (js ''risks'')))" "truthy (Some (JsonString (js ''timeline'')))"
    and h2: "truthy (Some ?lease)"
    and h7: "js ''The tenant shall pay rent.'' \<noteq> []"
    by (simp_all add: js_def truthy_def)
  have h3: "templateString (JsonString a) = Some a" for a
    by (simp add: templateString_def)
  have h5: "demoIndex \<noteq> []" by (simp add: demoIndex_def)
  have lab1: "js ''Risk Assessment''
      = (if js ''risks'' = js ''summarize'' then js ''Document Summary''
         else if js ''risks'' = js ''detailed'' then js ''Detailed Analysis''
         else if js ''risks'' = js ''risks'' then js ''Risk Assessment''
         else if js ''risks'' = js ''key-terms'' then js ''Key Terms & Clauses''
         else if js ''risks'' = js ''plain-english'' then js ''Plain English Translation''
         else toUpperCase demoServices (take 1 (js ''risks'')) @ drop 1 (js ''risks''))"
    by (simp add: js_def)
  have lab2: "js ''Timeline''
      = (if js ''timeline'' = js ''summarize'' then js ''Document Summary''
         else if js ''timeline'' = js ''detailed'' then js ''Detailed Analysis''
         else if js ''timeline'' = js ''risks'' then js ''Risk Assessment''
         else if js ''timeline'' = js ''key-terms'' then js ''Key Terms & Clauses''
         else if js ''timeline'' = js ''plain-english'' then js ''Plain English Translation''
         else toUpperCase demoServices (take 1 (js ''timeline'')) @ drop 1 (js ''timeline''))"
    by (simp add: js_def demoServices_def asciiUpper_def)
  have body: "js ''Document Analysis for lease.txt\<newline>          \<newline>Analysis Type: '' @ lb @ js ''\<newline>\<newline>Content Summary:\<newline>The document contains 1 sections of content. \<newline>\<newline>Key Content Preview:\<newline>The tenant shall pay rent....\<newline>\<newline>Note: AI analysis is currently unavailable. This is a basic content extraction. Please try again later for full AI-powered analysis.''
      = js ''Document Analysis for '' @ js ''lease.txt''
        @ js ''\<newline>          \<newline>Analysis Type: '' @ lb
        @ js ''\<newline>\<newline>Content Summary:\<newline>The document contains '' @ showNat (length demoIndex)
        @ js '' sections of content. \<newline>\<newline>Key Content Preview:\<newline>''
        @ take 500 (js ''The tenant shall pay rent.'')
        @ js ''...\<newline>\<newline>Note: AI analysis is currently unavailable. This is a basic content extraction. Please try again later for full AI-powered analysis.''"
    for lb
    by (simp add: js_def l showNat.simps)
  note risks = analysis_fallback_cascade
    [where analysisType = "JsonString (js ''risks'')" and fileName = ?lease
       and env = demoServices and index = demoIndex,
     OF h1(1) h2 h3 h3 demo_facts(4) m [symmetric] h5 c [symmetric] h7 p [symmetric] g,
     THEN conjunct2, THEN conjunct2, rule_format,
     OF conjI [OF g conjI [OF refl conjI [OF lab1 body]]], THEN conjunct1]
  note timeline = analysis_fallback_cascade
    [where analysisType = "JsonString (js ''timeline'')" and fileName = ?lease
       and env = demoServices and index = demoIndex,
     OF h1(2) h2 h3 h3 demo_facts(4) m [symmetric] h5 c [symmetric] h7 p [symmetric] g,
     THEN conjunct2, THEN conjunct2, rule_format,
     OF conjI [OF g conjI [OF refl conjI [OF lab2 body]]], THEN conjunct1]
  from risks timeline show ?thesis
    using m' c p [of "js ''risks''"] g l by (simp add: js_def)
qed

section \<open>Ingestion followed by analysis\<close>

subsection \<open>The ids of the vectors of one upload are distinct\<close>

lemma digit_unat: "k < 10 \<Longrightarrow> unat (48 + of_nat k :: jschar) = 48 + k"
  by (simp add: unat_word_ariths unat_of_nat)

lemma showNat_less: "n < 10 \<Longrightarrow> showNat n = [of_nat (48 + n)]"
  by (subst showNat.simps) simp

lemma showNat_more: "\<not> n < 10 \<Longrightarrow> showNat n = showNat (n div 10) @ [of_nat (48 + n mod 10)]"
  by (subst showNat.simps) simp

lemma showNat_digits: "c \<in> set (showNat n) \<Longrightarrow> 48 \<le> unat c \<and> unat c \<le> 57"
proof (induction n rule: showNat.induct)
  case (1 n)
  show ?case
  proof (cases "n < 10")
    case True
    with 1 show ?thesis by (auto simp: showNat_less digit_unat)
  next
    case False
    with 1 show ?thesis by (auto simp: showNat_more digit_unat)
  qed
qed

lemma readNat_showNat: "readNat (showNat n) = n"
proof (induction n rule: showNat.induct)
  case (1 n)
  show ?case
  proof (cases "n < 10")
    case True
    then show ?thesis by (simp add: showNat_less readNat_def digit_unat)
  next
    case False
    with 1 have "readNat (showNat (n div 10)) = n div 10" by simp
    with False show ?thesis by (simp add: showNat_more readNat_def digit_unat)
  qed
qed

lemma showNat_inj: "showNat m = showNat n \<Longrightarrow> m = n"
  by (metis readNat_showNat)

lemma underscore_not_digit: "0x5F \<notin> set (showNat n)"
  using showNat_digits [of "0x5F" n] by auto

lemma sep_split:
  "u \<notin> set a \<Longrightarrow> u \<notin> set b \<Longrightarrow> a @ u # x = b @ u # y \<Longrightarrow> a = b \<and> x = y"
proof (induction a arbitrary: b)
  case Nil
  then show ?case by (cases b) auto
next
  case (Cons c a)
  then show ?case by (cases b) auto
qed

lemma vectorId_eq:
  assumes "vectorId env name i = vectorId env' name j"
  shows "i = j \<and> dateNow env i = dateNow env' j"
proof -
  from assms have "showNat i @ 0x5F # showNat (dateNow env i)
                   = showNat j @ 0x5F # showNat (dateNow env' j)"
    by (simp add: vectorId_def js_def)
  from sep_split [OF underscore_not_digit underscore_not_digit this]
  show ?thesis by (auto dest: showNat_inj)
qed

lemma distinct_makeVectors: "distinct (map vec_id (makeVectors env fl ext validChunks embs))"
  unfolding makeVectors_ids
  by (auto simp: distinct_map inj_on_def dest: vectorId_eq)

subsection \<open>What upsert and the query do to the number of records of a file\<close>

lemma set_upsertOne: "set (upsertOne r s) \<subseteq> insert r (set s)"
  by (induction s) auto

lemma set_upsert: "set (upsert rs s) \<subseteq> set rs \<union> set s"
  unfolding upsert_def
proof (induction rs arbitrary: s)
  case Nil
  then show ?case by simp
next
  case (Cons r rs)
  from Cons [of "upsertOne r s"] set_upsertOne [of r s] show ?case by auto
qed

lemma count_upsertOne:
  assumes "P r" "\<forall>x \<in> set s. P x \<longrightarrow> vec_id x \<noteq> vec_id r"
  shows "length (filter P (upsertOne r s)) = Suc (length (filter P s))"
  using assms by (induction s) auto

lemma count_upsert:
  assumes "\<forall>r \<in> set rs. P r" "distinct (map vec_id rs)"
    and "\<forall>x \<in> set s. P x \<longrightarrow> vec_id x \<notin> vec_id ` set rs"
  shows "length (filter P (upsert rs s)) = length (filter P s) + length rs"
  using assms unfolding upsert_def
proof (induction rs arbitrary: s)
  case Nil
  then show ?case by simp
next
  case (Cons r rs)
  have 1: "length (filter P (upsertOne r s)) = Suc (length (filter P s))"
    using Cons.prems by (intro count_upsertOne) auto
  have 2: "\<forall>x \<in> set (upsertOne r s). P x \<longrightarrow> vec_id x \<notin> vec_id ` set rs"
    using Cons.prems set_upsertOne [of r s] by auto
  from Cons.IH [OF _ _ 2] Cons.prems 1 show ?case by simp
qed

lemma length_queryIndex:
  "length (queryIndex env index vector topK (JsonString fileName))
     = min topK (length (filter (\<lambda>r. meta_filename (vec_metadata r) = fileName) index))"
  by (simp add: queryIndex_def min.commute)

lemma set_queryIndex:
  "m \<in> set (queryIndex env index vector topK (JsonString fileName)) \<Longrightarrow>
     m \<in> set index \<and> meta_filename (vec_metadata m) = fileName"
  by (auto simp: queryIndex_def dest: in_set_takeD)

lemma upload_stores:
  assumes up: "uploadDocument env index (Form (Some fl)) = Some (UploadSuccess r, index')"
    and ids: "\<forall>x \<in> set index. meta_filename (vec_metadata x) = file_name fl
                \<longrightarrow> (\<forall>i. vec_id x \<noteq> vectorId env (file_name fl) i)"
  shows "length (filter (\<lambda>x. meta_filename (vec_metadata x) = file_name fl) index')
         = length (filter (\<lambda>x. meta_filename (vec_metadata x) = file_name fl) index)
           + chunksCreated r"
proof -
  let ?P = "\<lambda>x :: 'a vectorRecord. meta_filename (vec_metadata x) = file_name fl"
  from uploadDocument_success [OF up] obtain extracted chunks where
    r: "chunksCreated r = length (filter isValidText (take 30 chunks))"
    and i: "index' = upsert (makeVectors env fl (js ''.txt'')
                               (filter isValidText (take 30 chunks))
                               (embeddings (generateEmbeddings env
                                  (filter isValidText (take 30 chunks))))) index"
    by auto
  let ?vs = "makeVectors env fl (js ''.txt'') (filter isValidText (take 30 chunks))
               (embeddings (generateEmbeddings env (filter isValidText (take 30 chunks))))"
  have "length (filter ?P (upsert ?vs index)) = length (filter ?P index) + length ?vs"
  proof (rule count_upsert)
    show "\<forall>v \<in> set ?vs. ?P v" by (simp add: filename_makeVectors)
    show "distinct (map vec_id ?vs)" by (rule distinct_makeVectors)
    show "\<forall>x \<in> set index. ?P x \<longrightarrow> vec_id x \<notin> vec_id ` set ?vs"
    proof (intro ballI impI)
      fix x assume "x \<in> set index" "?P x"
      with ids have n: "\<forall>i. vec_id x \<noteq> vectorId env (file_name fl) i" by blast
      have "vec_id ` set ?vs = set (map vec_id ?vs)" by simp
      also have "\<dots> = vectorId env (file_name fl)
                          ` {0 ..< length (filter isValidText (take 30 chunks))}"
        by (simp only: makeVectors_ids set_map set_upt)
      finally show "vec_id x \<notin> vec_id ` set ?vs" using n by auto
    qed
  qed
  with r i show ?thesis by simp
qed

lemma upload_records:
  assumes up: "uploadDocument env index (Form (Some fl)) = Some (UploadSuccess r, index')"
    and x: "x \<in> set index'"
  shows "x \<in> set index
         \<or> ((\<exists>i. vec_id x = vectorId env (file_name fl) i)
            \<and> isValidText (meta_content (vec_metadata x)))"
proof -
  from uploadDocument_success [OF up] obtain extracted chunks where
    i: "index' = upsert (makeVectors env fl (js ''.txt'')
                               (filter isValidText (take 30 chunks))
                               (embeddings (generateEmbeddings env
                                  (filter isValidText (take 30 chunks))))) index"
    by auto
  let ?vc = "filter isValidText (take 30 chunks)"
  let ?vs = "makeVectors env fl (js ''.txt'') ?vc (embeddings (generateEmbeddings env ?vc))"
  from x i set_upsert [of ?vs index] have "x \<in> set ?vs \<or> x \<in> set index" by auto
  then show ?thesis
  proof
    assume "x \<in> set ?vs"
    then obtain k where k: "k < length ?vc" "x = ?vs ! k"
      by (metis in_set_conv_nth length_makeVectors)
    then have "vec_id x = vectorId env (file_name fl) k"
      and "meta_content (vec_metadata x) = ?vc ! k"
      by (simp_all add: makeVectors_nth)
    moreover from k have "?vc ! k \<in> set ?vc" by (intro nth_mem)
    ultimately show ?thesis by auto
  qed simp
qed

lemma joinWith_nonempty: "xs \<noteq> [] \<Longrightarrow> hd xs \<noteq> [] \<Longrightarrow> joinWith sep xs \<noteq> []"
  by (induction sep xs rule: joinWith.induct) auto

lemma relevantContent_nonempty:
  assumes "matches \<noteq> []" "\<forall>m \<in> set matches. meta_content (vec_metadata m) \<noteq> []"
  shows "relevantContent matches \<noteq> []"
proof -
  let ?cs = "map (\<lambda>match. meta_content (vec_metadata match)) matches"
  from assms have f: "filter (\<lambda>content. content \<noteq> []) ?cs = ?cs"
    by (simp add: filter_id_conv)
  from assms have "?cs \<noteq> []" "hd ?cs \<noteq> []" by (simp_all add: hd_map)
  then show ?thesis unfolding relevantContent_def f by (rule joinWith_nonempty)
qed

lemma analyze_reports:
  assumes "truthy (Some a)" and "truthy (Some f)"
    and "templateString a = Some typeText" and "templateString f = Some nameText"
    and "\<not> queryRaises env"
    and "ms = queryMatches env index (typeText @ js '' analysis of '' @ nameText) f"
    and "ms \<noteq> []" and "relevantContent ms \<noteq> []"
  shows "analyzeDocument env index (Json (Some a) (Some f)) = (AnalysisSuccess s, tr)
           \<Longrightarrow> r_chunksAnalyzed s = length ms"
    and "(\<exists>tp. a = JsonString tp)
         \<or> generateContent env Gemini15Flash (groundedPrompt env typeText (relevantContent ms)) \<noteq> None
         \<or> generateContent env Gemini15Pro (groundedPrompt env typeText (relevantContent ms)) \<noteq> None
         \<Longrightarrow> reportedChunksAnalyzed (analyzeDocument env index (Json (Some a) (Some f)))
               = Some (length ms)"
proof -
  show "r_chunksAnalyzed s = length ms"
    if "analyzeDocument env index (Json (Some a) (Some f)) = (AnalysisSuccess s, tr)"
    using that assms
    by (auto simp: analyzeDocument_def Let_def split: option.splits)
  show "reportedChunksAnalyzed (analyzeDocument env index (Json (Some a) (Some f)))
               = Some (length ms)"
    if "(\<exists>tp. a = JsonString tp)
         \<or> generateContent env Gemini15Flash (groundedPrompt env typeText (relevantContent ms)) \<noteq> None
         \<or> generateContent env Gemini15Pro (groundedPrompt env typeText (relevantContent ms)) \<noteq> None"
    using that assms
    by (auto simp: reportedChunksAnalyzed_def analyzeDocument_def Let_def basicAnalysis_def
        formatAnalysisType_def split: option.splits)
qed

lemma upload_then_analyze:
  assumes up: "uploadDocument env index (Form (Some fl)) = Some (UploadSuccess r, index')"
    and ids: "\<forall>x \<in> set index. meta_filename (vec_metadata x) = file_name fl
                \<longrightarrow> (\<forall>i. vec_id x \<noteq> vectorId env (file_name fl) i)
                    \<and> meta_content (vec_metadata x) \<noteq> []"
    and q: "\<not> queryRaises env'" and f: "file_name fl \<noteq> []"
    and a: "truthy (Some a)" "templateString a = Some typeText"
    and ms: "ms = queryMatches env' index' (typeText @ js '' analysis of '' @ file_name fl)
                    (JsonString (file_name fl))"
    and n: "n = min 20 (length (filter (\<lambda>x. meta_filename (vec_metadata x) = file_name fl) index)
                        + chunksCreated r)"
  shows "length ms = n"
    and "analyzeDocument env' index' (Json (Some a) (Some (JsonString (file_name fl))))
           = (AnalysisSuccess s, tr) \<Longrightarrow> r_chunksAnalyzed s = n"
    and "(\<exists>tp. a = JsonString tp)
         \<or> generateContent env' Gemini15Flash (groundedPrompt env' typeText (relevantContent ms)) \<noteq> None
         \<or> generateContent env' Gemini15Pro (groundedPrompt env' typeText (relevantContent ms)) \<noteq> None
         \<Longrightarrow> reportedChunksAnalyzed
               (analyzeDocument env' index' (Json (Some a) (Some (JsonString (file_name fl)))))
             = Some n"
proof -
  from ids have ids': "\<forall>x \<in> set index. meta_filename (vec_metadata x) = file_name fl
                \<longrightarrow> (\<forall>i. vec_id x \<noteq> vectorId env (file_name fl) i)"
    by blast
  show l: "length ms = n"
    using upload_stores [OF up ids'] by (simp add: ms n queryMatches_def length_queryIndex)
  from uploadDocument_success [OF up] have "1 \<le> chunksCreated r"
    by (auto simp: Suc_le_eq)
  with l n have ne: "ms \<noteq> []" by auto
  have "meta_content (vec_metadata m) \<noteq> []" if "m \<in> set ms" for m
  proof -
    from that have m: "m \<in> set index'" "meta_filename (vec_metadata m) = file_name fl"
      unfolding ms queryMatches_def by (auto dest: set_queryIndex)
    from upload_records [OF up m(1)] m(2) ids show ?thesis
      by (auto dest: isValidText_nonempty)
  qed
  with ne have c: "relevantContent ms \<noteq> []" by (intro relevantContent_nonempty) auto
  have tf: "truthy (Some (JsonString (file_name fl)))"
    "templateString (JsonString (file_name fl)) = Some (file_name fl)"
    using f by (simp_all add: truthy_def templateString_def)
  note rep = analyze_reports [OF a(1) tf(1) a(2) tf(2) q ms ne c]
  show "r_chunksAnalyzed s = n"
    if "analyzeDocument env' index' (Json (Some a) (Some (JsonString (file_name fl))))
           = (AnalysisSuccess s, tr)"
    using rep(1) [OF that] l by simp
  show "reportedChunksAnalyzed
               (analyzeDocument env' index' (Json (Some a) (Some (JsonString (file_name fl)))))
             = Some n"
    if "(\<exists>tp. a = JsonString tp)
         \<or> generateContent env' Gemini15Flash (groundedPrompt env' typeText (relevantContent ms)) \<noteq> None
         \<or> generateContent env' Gemini15Pro (groundedPrompt env' typeText (relevantContent ms)) \<noteq> None"
    using rep(2) [OF that] l by simp
qed

lemma upload_then_analyze_string:
  assumes up: "uploadDocument env index (Form (Some fl)) = Some (UploadSuccess r, index')"
    and ids: "\<forall>x \<in> set index. meta_filename (vec_metadata x) = file_name fl
                \<longrightarrow> (\<forall>i. vec_id x \<noteq> vectorId env (file_name fl) i)
                    \<and> meta_content (vec_metadata x) \<noteq> []"
    and q: "\<not> queryRaises env'" and f: "file_name fl \<noteq> []" and a: "tp \<noteq> []"
  shows "reportedChunksAnalyzed
           (analyzeDocument env' index'
              (Json (Some (JsonString tp)) (Some (JsonString (file_name fl)))))
         = Some (min 20 (length (filter (\<lambda>x. meta_filename (vec_metadata x) = file_name fl) index)
                         + chunksCreated r))"
proof -
  have t: "truthy (Some (JsonString tp))" "templateString (JsonString tp) = Some tp"
    using a by (simp_all add: truthy_def templateString_def)
  show ?thesis
    by (rule upload_then_analyze(3) [OF up ids q f t refl refl]) simp
qed

subsection \<open>The round trip\<close>

text \<open>
  C3 (the claim: for a document ingested with chunk count \<open>N\<close>, as reported in
  \<open>chunksCreated\<close>, a subsequent analysis query with the filter on its file name returns
  exactly \<open>N\<close> matches and the response reports \<open>chunksAnalyzed = N\<close>). The query asks for
  the 20 best matches while an upload stores up to 30 chunks: the file of 17000 letters
  "a" is split into 22 chunks, all valid and all stored, and the analysis reports 20. And
  an upload adds to the records its file name already has: the file of 100 letters "a",
  uploaded a second time one millisecond later, is reported with 1 chunk, and the analysis
  reports 2.
\<close>

theorem ingest_then_query_counterexample:
  "reportedChunksCreated (uploadDocument demoServices [] (Form (Some (plainFile 17000)))) = Some 22
   \<and> reportedChunksAnalyzed
        (analyzeDocument demoServices
           (indexAfter (uploadDocument demoServices [] (Form (Some (plainFile 17000)))))
           (Json (Some (JsonString (js ''risks''))) (Some (JsonString (js ''lease.txt'')))))
      = Some 20
   \<and> reportedChunksCreated
        (uploadDocument (demoServices\<lparr>dateNow := \<lambda>i. 1700000000001\<rparr>)
           (indexAfter (uploadDocument demoServices [] (Form (Some (plainFile 100)))))
           (Form (Some (plainFile 100)))) = Some 1
   \<and> reportedChunksAnalyzed
        (analyzeDocument demoServices
           (indexAfter
              (uploadDocument (demoServices\<lparr>dateNow := \<lambda>i. 1700000000001\<rparr>)
                 (indexAfter (uploadDocument demoServices [] (Form (Some (plainFile 100)))))
                 (Form (Some (plainFile 100)))))
           (Json (Some (JsonString (js ''risks''))) (Some (JsonString (js ''lease.txt'')))))
      = Some 2"
proof -
  let ?later = "demoServices\<lparr>dateNow := \<lambda>i. 1700000000001\<rparr>"
  have nm: "file_name (plainFile n) = js ''lease.txt''" for n by (simp add: plainFile_def)
  have ne: "js ''risks'' \<noteq> []" "js ''lease.txt'' \<noteq> []" by (simp_all add: js_def)
  note big = upload_plain [of demoServices 17000 _ _ "[]",
      OF demo_decode demo_facts(1) demo_facts(2) demo_facts(3) split17000 valid17000, simplified]
  have 1: "reportedChunksCreated (uploadDocument demoServices [] (Form (Some (plainFile 17000))))
           = Some 22"
    by (simp add: big reportedChunksCreated_def)
  have 2: "reportedChunksAnalyzed
        (analyzeDocument demoServices
           (indexAfter (uploadDocument demoServices [] (Form (Some (plainFile 17000)))))
           (Json (Some (JsonString (js ''risks''))) (Some (JsonString (js ''lease.txt'')))))
      = Some 20"
    using upload_then_analyze_string [OF big, of demoServices "js ''risks''"] ne
    by (simp add: big indexAfter_def nm demo_facts)
  note first = upload_plain [of demoServices 100 _ _ "[]",
      OF demo_decode demo_facts(1) demo_facts(2) demo_facts(3) split100 valid100, simplified]
  let ?i1 = "upsert (makeVectors demoServices (plainFile 100) (js ''.txt'') [replicate 100 0x61]
               (embeddings (generateEmbeddings demoServices [replicate 100 0x61]))) []"
  have later: "decodeUtf8 ?later (replicate 100 0x61) = Some (replicate 100 0x61)"
    "toLowerCase ?later (js ''txt'') = js ''txt''" "describeIndex ?later" "\<not> upsertRaises ?later"
    using demo_decode [of 100] demo_facts by simp_all
  note second = upload_plain [of ?later 100 _ _ ?i1,
      OF later(1) later(2) later(3) later(4) split100 valid100, simplified]
  have 3: "reportedChunksCreated (uploadDocument ?later
           (indexAfter (uploadDocument demoServices [] (Form (Some (plainFile 100)))))
           (Form (Some (plainFile 100)))) = Some 1"
    by (simp add: first second indexAfter_def reportedChunksCreated_def)
  have one: "length (filter (\<lambda>x. meta_filename (vec_metadata x) = js ''lease.txt'') ?i1) = 1"
    using upload_stores [OF first] by (simp add: nm)
  have ids: "\<forall>x \<in> set ?i1. meta_filename (vec_metadata x) = file_name (plainFile 100)
                \<longrightarrow> (\<forall>i. vec_id x \<noteq> vectorId ?later (file_name (plainFile 100)) i)
                    \<and> meta_content (vec_metadata x) \<noteq> []"
  proof (intro ballI impI conjI allI)
    fix x i assume "x \<in> set ?i1"
    from upload_records [OF first this] obtain j where
      "vec_id x = vectorId demoServices (file_name (plainFile 100)) j" by auto
    then show "vec_id x \<noteq> vectorId ?later (file_name (plainFile 100)) i"
      using vectorId_eq [of demoServices "file_name (plainFile 100)" j ?later i]
      by (auto simp: demoServices_def)
  next
    fix x assume "x \<in> set ?i1"
    from upload_records [OF first this] show "meta_content (vec_metadata x) \<noteq> []"
      by (auto dest: isValidText_nonempty)
  qed
  have 4: "reportedChunksAnalyzed
        (analyzeDocument demoServices
           (indexAfter
              (uploadDocument ?later
                 (indexAfter (uploadDocument demoServices [] (Form (Some (plainFile 100)))))
                 (Form (Some (plainFile 100)))))
           (Json (Some (JsonString (js ''risks''))) (Some (JsonString (js ''lease.txt'')))))
      = Some 2"
    using upload_then_analyze_string [OF second ids, of demoServices "js ''risks''"] ne one
    by (simp add: first second indexAfter_def nm demo_facts)
  from 1 2 3 4 show ?thesis by simp
qed

text \<open>
  C3, amended: when a document is ingested successfully with chunk count \<open>N\<close> into an
  index that holds no record under its file name, and the index shows the records
  written to the query that follows (as the list of records of the model does), then a
  subsequent analysis of that file name whose query is made and does not raise gets
  \<open>min 20 N\<close> matches, that is exactly \<open>N\<close> when \<open>N\<close> is at most 20; every success
  response of that analysis reports \<open>chunksAnalyzed = min 20 N\<close>; and the response is a
  success whenever \<open>analysisType\<close> is a string or one of the two models answers. (When
  \<open>analysisType\<close> is not a string and both models raise, the response is a failure and
  reports nothing.)
\<close>

theorem ingest_then_query_count:
  assumes "\<forall>x \<in> set index. meta_filename (vec_metadata x) \<noteq> file_name fl"
    and "uploadDocument env index (Form (Some fl)) = Some (UploadSuccess r, index')"
    and "\<not> queryRaises env'" and "file_name fl \<noteq> []"
    and "truthy (Some analysisType)" and "templateString analysisType = Some typeText"
    and "matches = queryMatches env' index' (typeText @ js '' analysis of '' @ file_name fl)
                     (JsonString (file_name fl))"
    and "prompt = groundedPrompt env' typeText (relevantContent matches)"
    and "response = analyzeDocument env' index'
                      (Json (Some analysisType) (Some (JsonString (file_name fl))))"
  shows "length matches = min 20 (chunksCreated r)
    \<and> (chunksCreated r \<le> 20 \<longrightarrow> length matches = chunksCreated r)
    \<and> (\<forall>s trace. response = (AnalysisSuccess s, trace)
          \<longrightarrow> r_chunksAnalyzed s = min 20 (chunksCreated r))
    \<and> ((\<exists>type. analysisType = JsonString type)
        \<or> generateContent env' Gemini15Flash prompt \<noteq> None
        \<or> generateContent env' Gemini15Pro prompt \<noteq> None
        \<longrightarrow> reportedChunksAnalyzed response = Some (min 20 (chunksCreated r)))"
proof -
  from assms(1) have ids: "\<forall>x \<in> set index. meta_filename (vec_metadata x) = file_name fl
                \<longrightarrow> (\<forall>i. vec_id x \<noteq> vectorId env (file_name fl) i)
                    \<and> meta_content (vec_metadata x) \<noteq> []"
    by blast
  from assms(1) have
    "filter (\<lambda>x. meta_filename (vec_metadata x) = file_name fl) index = []"
    by (auto simp: filter_empty_conv)
  then have n: "min 20 (chunksCreated r)
      = min 20 (length (filter (\<lambda>x. meta_filename (vec_metadata x) = file_name fl) index)
                + chunksCreated r)"
    by simp
  note u = upload_then_analyze [OF assms(2) ids assms(3) assms(4) assms(5) assms(6) assms(7) n]
  from u(1) have 1: "length matches = min 20 (chunksCreated r)" .
  have 3: "r_chunksAnalyzed s = min 20 (chunksCreated r)"
    if "response = (AnalysisSuccess s, trace)" for s trace
    using u(2) [of s trace] that assms(9) by simp
  have 4: "reportedChunksAnalyzed response = Some (min 20 (chunksCreated r))"
    if "(\<exists>tp. analysisType = JsonString tp)
        \<or> generateContent env' Gemini15Flash prompt \<noteq> None
        \<or> generateContent env' Gemini15Pro prompt \<noteq> None"
    using u(3) that assms(8) assms(9) by simp
  from 1 3 4 show ?thesis by auto
qed

text \<open>
  Witness of C3, amended. The file of 805 letters "a" is ingested into the empty index
  with one chunk; the analysis then gets one match and reports one chunk. The file of
  17000 letters "a" is ingested with 22 chunks into an index that holds a record of the
  file "deed.txt"; the analysis then gets 20 matches and reports 20 chunks.
\<close>

theorem ingest_then_query_count_witness:
  "reportedChunksCreated (uploadDocument demoServices [] (Form (Some (plainFile 805)))) = Some 1
   \<and> length (queryMatches demoServices
               (indexAfter (uploadDocument demoServices [] (Form (Some (plainFile 805)))))
               (js ''risks analysis of lease.txt'') (JsonString (js ''lease.txt''))) = 1
   \<and> reportedChunksAnalyzed
        (analyzeDocument demoServices
           (indexAfter (uploadDocument demoServices [] (Form (Some (plainFile 805)))))
           (Json (Some (JsonString (js ''risks''))) (Some (JsonString (js ''lease.txt'')))))
      = Some 1
   \<and> reportedChunksCreated
        (uploadDocument demoServices deedIndex (Form (Some (plainFile 17000)))) = Some 22
   \<and> length (queryMatches demoServices
               (indexAfter (uploadDocument demoServices deedIndex (Form (Some (plainFile 17000)))))
               (js ''risks analysis of lease.txt'') (JsonString (js ''lease.txt''))) = 20
   \<and> reportedChunksAnalyzed
        (analyzeDocument demoServices
           (indexAfter (uploadDocument demoServices deedIndex (Form (Some (plainFile 17000)))))
           (Json (Some (JsonString (js ''risks''))) (Some (JsonString (js ''lease.txt'')))))
      = Some 20"
proof -
  have nm: "file_name (plainFile n) = js ''lease.txt''" for n by (simp add: plainFile_def)
  have ne: "file_name (plainFile n) \<noteq> []" for n by (simp add: js_def plainFile_def)
  have t: "truthy (Some (JsonString (js ''risks'')))"
    "templateString (JsonString (js ''risks'')) = Some (js ''risks'')"
    by (simp_all add: truthy_def templateString_def js_def)
  have q: "js ''risks'' @ js '' analysis of '' @ js ''lease.txt'' = js ''risks analysis of lease.txt''"
    by (simp add: js_def)
  note small = upload_plain [of demoServices 805 _ _ "[]",
      OF demo_decode demo_facts(1) demo_facts(2) demo_facts(3) split805 valid805, simplified]
  note big = upload_plain [of demoServices 17000 _ _ deedIndex,
      OF demo_decode demo_facts(1) demo_facts(2) demo_facts(3) split17000 valid17000, simplified]
  have fresh: "\<forall>x \<in> set ([] :: nat vectorRecord list).
                 meta_filename (vec_metadata x) \<noteq> file_name (plainFile 805)"
    by simp
  have fresh': "\<forall>x \<in> set deedIndex. meta_filename (vec_metadata x) \<noteq> file_name (plainFile 17000)"
    by (simp add: deedIndex_def plainFile_def js_def)
  from ingest_then_query_count [OF fresh small demo_facts(4) ne t refl refl refl]
    ingest_then_query_count [OF fresh' big demo_facts(4) ne t refl refl refl]
  show ?thesis
    by (simp add: small big indexAfter_def nm q reportedChunksCreated_def)
qed

end
